theory Spec2Isabelle
  imports Complex_Main "HOL-Library.Multiset"
begin

section \<open>Python and numpy primitives used by the notebooks\<close>

text \<open>
  Floating-point numbers are idealised as rationals throughout: every sum, mean and
  quotient below is exact. A one-dimensional array is a list of rationals, a
  two-dimensional array is the list of its rows (all of one width).
\<close>

datatype error = IndexError | ValueError | AxisError | KeyError | BadReference

definition bind_err :: "error + 'a \<Rightarrow> ('a \<Rightarrow> error + 'b) \<Rightarrow> error + 'b" where
  "bind_err m f = (case m of Inl e \<Rightarrow> Inl e | Inr x \<Rightarrow> f x)"

text \<open>Integer indexing of a sequence of length \<open>n\<close>: a negative index counts from the end.\<close>

definition py_in_range :: "nat \<Rightarrow> int \<Rightarrow> bool" where
  "py_in_range n i = (- int n \<le> i \<and> i < int n)"

definition py_norm :: "nat \<Rightarrow> int \<Rightarrow> nat" where
  "py_norm n i = nat (if i < 0 then i + int n else i)"

text \<open>\<^verbatim>\<open>xs[i]\<close>\<close>

definition getitem :: "'a list \<Rightarrow> int \<Rightarrow> error + 'a" where
  "getitem xs i =
     (if py_in_range (length xs) i then Inr (xs ! py_norm (length xs) i) else Inl IndexError)"

text \<open>\<^verbatim>\<open>xs[i] = v\<close>, returning the updated array.\<close>

definition setitem :: "'a list \<Rightarrow> int \<Rightarrow> 'a \<Rightarrow> error + 'a list" where
  "setitem xs i v =
     (if py_in_range (length xs) i then Inr (xs[py_norm (length xs) i := v])
      else Inl IndexError)"

text \<open>
  An arithmetic operator on two one-dimensional arrays: elementwise on equal shapes, a
  one-element array is broadcast against the other, any other pair of shapes raises
  ValueError.
\<close>

definition np_broadcast2 ::
  "(rat \<Rightarrow> rat \<Rightarrow> rat) \<Rightarrow> rat list \<Rightarrow> rat list \<Rightarrow> error + rat list" where
  "np_broadcast2 f a b =
     (if length a = length b then Inr (map2 f a b)
      else if length a = 1 then Inr (map (f (hd a)) b)
      else if length b = 1 then Inr (map (\<lambda>x. f x (hd b)) a)
      else Inl ValueError)"

text \<open>
  \<^verbatim>\<open>np.mean(rows, 0)\<close> for a list of rows: the rows are added up along axis 0 and the
  sum is divided by their number. On the empty list numpy returns the scalar nan (with a
  warning, no exception): that is \<open>None\<close> here.
\<close>

definition np_mean_axis0 :: "rat list list \<Rightarrow> rat list option" where
  "np_mean_axis0 rows =
     (case rows of
        [] \<Rightarrow> None
      | r # rs \<Rightarrow> Some (map (\<lambda>c. c / of_nat (length rows)) (foldl (map2 (+)) r rs)))"

text \<open>\<^verbatim>\<open>m[:-1]\<close> on the result of a mean: slicing the scalar nan raises IndexError.\<close>

definition slice_init :: "rat list option \<Rightarrow> error + rat list" where
  "slice_init m = (case m of None \<Rightarrow> Inl IndexError | Some v \<Rightarrow> Inr (butlast v))"

definition delete_at :: "nat \<Rightarrow> 'a list \<Rightarrow> 'a list" where
  "delete_at n xs = take n xs @ drop (Suc n) xs"

text \<open>
  \<^verbatim>\<open>np.delete(np.array(rows), i, 1)\<close>. \<^verbatim>\<open>np.array([])\<close> is one-dimensional, so
  deleting along axis 1 raises AxisError; rows of different lengths do not make a
  two-dimensional array (ValueError when the array is built); an index outside the
  width raises IndexError.
\<close>

definition np_delete_axis1 :: "rat list list \<Rightarrow> int \<Rightarrow> error + rat list list" where
  "np_delete_axis1 rows i =
     (case rows of
        [] \<Rightarrow> Inl AxisError
      | r # _ \<Rightarrow>
          if \<not> list_all (\<lambda>x. length x = length r) rows then Inl ValueError
          else if py_in_range (length r) i
          then Inr (map (delete_at (py_norm (length r) i)) rows)
          else Inl IndexError)"

section \<open>The fairness transform: class UncorrelationMethod\<close>

record UncorrelationMethod =
  val0 :: rat
  sensitive_feature :: int
  u :: "rat list option"

text \<open>\<^verbatim>\<open>__init__(self, sensitive_feature, groupA_value=0.0)\<close>\<close>

definition init :: "int \<Rightarrow> rat \<Rightarrow> UncorrelationMethod" where
  "init sf groupA_value = \<lparr>val0 = groupA_value, sensitive_feature = sf, u = None\<rparr>"

text \<open>
  The two list comprehensions of \<open>fit\<close>:
  \<^verbatim>\<open>[ex for idx, ex in enumerate(dataset)
      if dataset[idx, -1] == 1 and ex[self.sensitive_feature] == self.val0]\<close>
  (\<open>inA = True\<close>) and the same with \<^verbatim>\<open>!=\<close> (\<open>inA = False\<close>). The conjunction
  is short-circuit: the sensitive column is read only in rows labelled 1.
\<close>

fun fit_select :: "bool \<Rightarrow> UncorrelationMethod \<Rightarrow> rat list list \<Rightarrow> error + rat list list" where
  "fit_select inA self [] = Inr []"
| "fit_select inA self (ex # rest) =
     bind_err (getitem ex (- 1)) (\<lambda>label.
       if label = 1 then
         bind_err (getitem ex (sensitive_feature self)) (\<lambda>s.
           bind_err (fit_select inA self rest) (\<lambda>tl.
             Inr (if (s = val0 self) = inA then ex # tl else tl)))
       else fit_select inA self rest)"

text \<open>\<^verbatim>\<open>average_A_1[:-1] - average_not_A_1[:-1]\<close>, the value \<open>u\<close> is first bound to.\<close>

definition fit_diff :: "UncorrelationMethod \<Rightarrow> rat list list \<Rightarrow> error + rat list" where
  "fit_diff self dataset =
     bind_err (fit_select True self dataset) (\<lambda>tmpA.
     bind_err (fit_select False self dataset) (\<lambda>tmpB.
     bind_err (slice_init (np_mean_axis0 tmpA)) (\<lambda>a.
     bind_err (slice_init (np_mean_axis0 tmpB)) (\<lambda>b.
       np_broadcast2 (-) a b))))"

text \<open>\<open>fit\<close> returns the object with \<open>u\<close> assigned, or the exception raised.\<close>

definition fit :: "UncorrelationMethod \<Rightarrow> rat list list \<Rightarrow> error + UncorrelationMethod" where
  "fit self dataset =
     bind_err (fit_diff self dataset) (\<lambda>d.
     bind_err (setitem d (sensitive_feature self) (- 1)) (\<lambda>v.
       Inr (self\<lparr>u := Some v\<rparr>)))"

text \<open>
  The list comprehension of \<open>new_representation\<close>:
  \<^verbatim>\<open>[ex if ex[self.sensitive_feature] == self.val0 else ex + self.u for ex in examples]\<close>
\<close>

fun shift_rows :: "UncorrelationMethod \<Rightarrow> rat list \<Rightarrow> rat list list \<Rightarrow> error + rat list list" where
  "shift_rows self uv [] = Inr []"
| "shift_rows self uv (ex # rest) =
     bind_err (getitem ex (sensitive_feature self)) (\<lambda>s.
     bind_err (if s = val0 self then Inr ex else np_broadcast2 (+) ex uv) (\<lambda>r.
     bind_err (shift_rows self uv rest) (\<lambda>rs.
       Inr (r # rs))))"

text \<open>The value \<open>new_representation\<close> returns, or the exception it raises.\<close>

definition new_representation :: "UncorrelationMethod \<Rightarrow> rat list list \<Rightarrow> error + rat list list" where
  "new_representation self examples =
     (case u self of
        None \<Rightarrow> Inr examples
      | Some uv \<Rightarrow>
          bind_err (shift_rows self uv examples) (\<lambda>new_examples.
            np_delete_axis1 new_examples (sensitive_feature self)))"

subsection \<open>The methods on a store\<close>

text \<open>
  Python passes arrays by reference. To speak about what a call leaves untouched, the
  arrays live in a store (a list, an address is a position in it), the instance holds a
  reference to the array \<open>u\<close> or \<open>None\<close>, and \<open>print\<close> appends a line to the output.
  The error \<open>BadReference\<close> stands for a reference to nothing or to an array of a
  rank the method is never given; no Python run reaches it.
\<close>

datatype ndarray = Arr1 "rat list" | Arr2 "rat list list"

record um_instance =
  o_val0 :: rat
  o_sensitive_feature :: int
  o_u :: "nat option"

record pystate =
  this :: um_instance
  heap :: "ndarray list"
  stdout :: "string list"

definition alloc :: "ndarray \<Rightarrow> ndarray list \<Rightarrow> nat \<times> ndarray list" where
  "alloc a h = (length h, h @ [a])"

definition deref :: "ndarray list \<Rightarrow> nat \<Rightarrow> ndarray option" where
  "deref h a = (if a < length h then Some (h ! a) else None)"

text \<open>
  \<open>new_representation\<close> on the store: \<open>examples\<close> is the address of the argument, the
  result is the address returned (or the exception) and the state after the call. When
  \<open>u\<close> is \<open>None\<close> the method prints and returns its argument, the same object. Otherwise
  the rows and \<open>u\<close> are read, the value is computed as above and put into a new array.
  Iterating over a one-dimensional argument yields scalars, and indexing a scalar raises
  IndexError; with no element at all, \<^verbatim>\<open>np.delete\<close> raises AxisError.
\<close>

definition new_representation_st :: "pystate \<Rightarrow> nat \<Rightarrow> (error + nat) \<times> pystate" where
  "new_representation_st s examples =
     (case o_u (this s) of
        None \<Rightarrow>
          (Inr examples, s\<lparr>stdout := stdout s @ [''You have to fit the model first...'']\<rparr>)
      | Some ua \<Rightarrow>
          (case (deref (heap s) ua, deref (heap s) examples) of
             (Some (Arr1 uv), Some (Arr2 rows)) \<Rightarrow>
               (case new_representation
                       \<lparr>val0 = o_val0 (this s),
                        sensitive_feature = o_sensitive_feature (this s), u = Some uv\<rparr> rows of
                  Inl e \<Rightarrow> (Inl e, s)
                | Inr new_examples \<Rightarrow>
                    (case alloc (Arr2 new_examples) (heap s) of
                       (r, h) \<Rightarrow> (Inr r, s\<lparr>heap := h\<rparr>)))
           | (Some (Arr1 uv), Some (Arr1 xs)) \<Rightarrow>
               (Inl (if xs = [] then AxisError else IndexError), s)
           | _ \<Rightarrow> (Inl BadReference, s)))"

text \<open>
  \<open>fit\<close> on the store: \<open>self.u\<close> is bound to a new array holding the difference of the
  means, and that array is then updated in place at the sensitive index. When the update
  raises, \<open>self.u\<close> stays bound to the difference. A one-dimensional dataset raises
  IndexError: at \<^verbatim>\<open>dataset[idx, -1]\<close> when it has an element, at the slice of the nan
  mean when it has none.
\<close>

definition fit_st :: "pystate \<Rightarrow> nat \<Rightarrow> (error + unit) \<times> pystate" where
  "fit_st s dataset =
     (case deref (heap s) dataset of
        Some (Arr2 rows) \<Rightarrow>
          (case fit_diff \<lparr>val0 = o_val0 (this s),
                          sensitive_feature = o_sensitive_feature (this s), u = None\<rparr> rows of
             Inl e \<Rightarrow> (Inl e, s)
           | Inr d \<Rightarrow>
               (case alloc (Arr1 d) (heap s) of
                  (a, h) \<Rightarrow>
                    (case setitem d (o_sensitive_feature (this s)) (- 1) of
                       Inl e \<Rightarrow> (Inl e, s\<lparr>this := (this s)\<lparr>o_u := Some a\<rparr>, heap := h\<rparr>)
                     | Inr v \<Rightarrow>
                         (Inr (), s\<lparr>this := (this s)\<lparr>o_u := Some a\<rparr>,
                                    heap := h[a := Arr1 v]\<rparr>))))
      | Some (Arr1 xs) \<Rightarrow> (Inl IndexError, s)
      | None \<Rightarrow> (Inl BadReference, s))"

section \<open>Difference in equal opportunity: deo_from_list\<close>

fun map_err :: "('a \<Rightarrow> error + 'b) \<Rightarrow> 'a list \<Rightarrow> error + 'b list" where
  "map_err f [] = Inr []"
| "map_err f (x # xs) =
     bind_err (f x) (\<lambda>y. bind_err (map_err f xs) (\<lambda>ys. Inr (y # ys)))"

text \<open>\<^verbatim>\<open>arr[idxs]\<close> for a list of integer indices (along the first axis).\<close>

definition take_idxs :: "'a list \<Rightarrow> int list \<Rightarrow> error + 'a list" where
  "take_idxs arr idxs = map_err (getitem arr) idxs"

text \<open>\<^verbatim>\<open>np.where(rows[:, -1] == 1, 1, 0)\<close>\<close>

definition positive_labels :: "rat list list \<Rightarrow> error + rat list" where
  "positive_labels rows =
     bind_err (map_err (\<lambda>r. getitem r (- 1)) rows) (\<lambda>col.
       Inr (map (\<lambda>x. if x = 1 then 1 else 0) col))"

text \<open>
  \<^verbatim>\<open>sklearn.metrics.confusion_matrix(y_true, y_pred)\<close>: the labels are the sorted
  distinct values of both arguments; entry \<open>(i, j)\<close> counts the samples whose true label
  is the \<open>i\<close>-th label and whose predicted label is the \<open>j\<close>-th. Targets that are not
  whole numbers are rejected (ValueError). Both arguments have one length here, being
  selected by the same indices.
\<close>

definition confusion_matrix :: "rat list \<Rightarrow> rat list \<Rightarrow> error + nat list list" where
  "confusion_matrix y_true y_pred =
     (if \<not> list_all (\<lambda>x. x = of_int \<lfloor>x\<rfloor>) (y_true @ y_pred) then Inl ValueError
      else
        (let labels = sort (remdups (y_true @ y_pred)) in
         Inr (map (\<lambda>t. map (\<lambda>p. length (filter (\<lambda>(a, b). a = t \<and> b = p) (zip y_true y_pred)))
                          labels) labels)))"

text \<open>\<^verbatim>\<open>tn, fp, fn, tp = m.ravel()\<close>: unpacking needs exactly four values.\<close>

definition unpack4 :: "nat list list \<Rightarrow> error + nat \<times> nat \<times> nat \<times> nat" where
  "unpack4 m =
     (case concat m of
        [a, b, c, d] \<Rightarrow> Inr (a, b, c, d)
      | _ \<Rightarrow> Inl ValueError)"

text \<open>
  \<^verbatim>\<open>float(a) / b\<close> with \<open>b\<close> a numpy integer: division by zero gives nan or inf with
  a warning, no exception; that is \<open>None\<close>.
\<close>

definition np_divide :: "nat \<Rightarrow> nat \<Rightarrow> rat option" where
  "np_divide a b = (if b = 0 then None else Some (of_nat a / of_nat b))"

definition group_cells ::
  "rat list list \<Rightarrow> rat list \<Rightarrow> int list \<Rightarrow> error + nat \<times> nat \<times> nat \<times> nat" where
  "group_cells dataset predictions idxs =
     bind_err (take_idxs dataset idxs) (\<lambda>rows.
     bind_err (positive_labels rows) (\<lambda>y_true.
     bind_err (take_idxs predictions idxs) (\<lambda>y_pred.
     bind_err (confusion_matrix y_true y_pred) unpack4)))"

text \<open>
  The value \<open>deo_from_list\<close> returns. The lines it prints only format counts and
  quotients of the same kind and raise nothing.
\<close>

definition deo_from_list ::
  "rat list list \<Rightarrow> rat list \<Rightarrow> int list \<Rightarrow> int list \<Rightarrow> error + rat option" where
  "deo_from_list dataset predictions groupA_idxs groupB_idxs =
     bind_err (group_cells dataset predictions groupA_idxs) (\<lambda>(tnA, fpA, fnA, tpA).
     bind_err (group_cells dataset predictions groupB_idxs) (\<lambda>(tnB, fpB, fnB, tpB).
       Inr (case (np_divide tpA (tpA + fnA), np_divide tpB (tpB + fnB)) of
              (Some a, Some b) \<Rightarrow> Some \<bar>a - b\<bar>
            | _ \<Rightarrow> None)))"

section \<open>The random split of the batch-transform notebook\<close>

text \<open>
  A data frame: its column names, its row labels (the index) and its rows. Selecting by
  a boolean mask and dropping columns keep the labels of the rows that remain.
\<close>

record 'a dataframe =
  df_columns :: "string list"
  df_index :: "nat list"
  df_rows :: "'a list list"

definition select_mask :: "bool list \<Rightarrow> 'b list \<Rightarrow> 'b list" where
  "select_mask bs xs = map snd (filter fst (zip bs xs))"

text \<open>\<^verbatim>\<open>data[mask]\<close>: a mask of another length than the frame is rejected.\<close>

definition df_getitem_mask :: "'a dataframe \<Rightarrow> bool list \<Rightarrow> error + 'a dataframe" where
  "df_getitem_mask df bs =
     (if length bs \<noteq> length (df_index df) then Inl ValueError
      else Inr (df\<lparr>df_index := select_mask bs (df_index df),
                   df_rows := select_mask bs (df_rows df)\<rparr>))"

text \<open>\<^verbatim>\<open>df.drop(cols, axis=1)\<close>: a column that is not there raises KeyError.\<close>

definition df_drop :: "string list \<Rightarrow> 'a dataframe \<Rightarrow> error + 'a dataframe" where
  "df_drop cols df =
     (if \<not> list_all (\<lambda>c. c \<in> set (df_columns df)) cols then Inl KeyError
      else Inr (df\<lparr>df_columns := filter (\<lambda>c. c \<notin> set cols) (df_columns df),
                   df_rows := map (\<lambda>r. map snd (filter (\<lambda>(c, x). c \<notin> set cols)
                                                     (zip (df_columns df) r))) (df_rows df)\<rparr>))"

definition train_list :: "rat list \<Rightarrow> bool list" where
  "train_list rand_split = map (\<lambda>r. r < 8 / 10) rand_split"

definition val_list :: "rat list \<Rightarrow> bool list" where
  "val_list rand_split = map (\<lambda>r. r \<ge> 8 / 10 \<and> r < 9 / 10) rand_split"

definition batch_list :: "rat list \<Rightarrow> bool list" where
  "batch_list rand_split = map (\<lambda>r. r \<ge> 9 / 10) rand_split"

text \<open>
  The cell that splits the data. \<open>rand_split\<close> is the value of
  \<^verbatim>\<open>np.random.rand(len(data))\<close>, one number per row. The result is
  \<open>(data_train, data_val, data_batch, data_batch_noID)\<close>.
\<close>

definition split_data ::
  "'a dataframe \<Rightarrow> rat list \<Rightarrow>
     error + 'a dataframe \<times> 'a dataframe \<times> 'a dataframe \<times> 'a dataframe" where
  "split_data data rand_split =
     bind_err (df_getitem_mask data (train_list rand_split)) (\<lambda>tr.
     bind_err (df_drop [''id''] tr) (\<lambda>data_train.
     bind_err (df_getitem_mask data (val_list rand_split)) (\<lambda>va.
     bind_err (df_drop [''id''] va) (\<lambda>data_val.
     bind_err (df_getitem_mask data (batch_list rand_split)) (\<lambda>ba.
     bind_err (df_drop [''diagnosis''] ba) (\<lambda>data_batch.
     bind_err (df_drop [''id''] data_batch) (\<lambda>data_batch_noID.
       Inr (data_train, data_val, data_batch, data_batch_noID))))))))"

section \<open>Notions used to state the properties\<close>

text \<open>A two-dimensional array with \<open>d\<close> columns: every row has length \<open>d\<close>.\<close>

definition is_matrix :: "nat \<Rightarrow> 'a list list \<Rightarrow> bool" where
  "is_matrix d rows = list_all (\<lambda>r. length r = d) rows"

text \<open>
  The positively-labelled examples (last column equal to 1) of group A (\<open>inA = True\<close>:
  sensitive value equal to the marker \<open>val0\<close>) and of group B (\<open>inA = False\<close>). The
  sensitive value of a row is the entry the index selects in it, a negative index
  counting from the end.
\<close>

definition positives :: "bool \<Rightarrow> UncorrelationMethod \<Rightarrow> rat list list \<Rightarrow> rat list list" where
  "positives inA self dataset =
     filter (\<lambda>ex. last ex = 1 \<and>
               ((ex ! py_norm (length ex) (sensitive_feature self) = val0 self) = inA)) dataset"

text \<open>The mean vector of a non-empty list of rows, coordinate by coordinate.\<close>

definition mean_vector :: "rat list list \<Rightarrow> rat list" where
  "mean_vector rows =
     map (\<lambda>j. (\<Sum>x\<leftarrow>rows. x ! j) / of_nat (length rows)) [0..<length (hd rows)]"

text \<open>
  The rows of \<open>out\<close> that stand at the positions of the positively-labelled examples
  of group A (or B) of \<open>dataset\<close>.
\<close>

definition transformed_positives ::
  "bool \<Rightarrow> UncorrelationMethod \<Rightarrow> rat list list \<Rightarrow> rat list list \<Rightarrow> rat list list" where
  "transformed_positives inA self dataset out =
     map snd (filter (\<lambda>(ex, r). last ex = 1 \<and>
                 ((ex ! py_norm (length ex) (sensitive_feature self) = val0 self) = inA))
          (zip dataset out))"

text \<open>
  The cells of the confusion matrix of a group: the number of selected examples (counted
  as often as their index is listed) whose label is 1 or not (\<open>actual\<close>) and whose
  prediction is \<open>predicted\<close>. True positives are \<open>cell \<dots> True 1\<close>, false negatives
  \<open>cell \<dots> True 0\<close>, false positives \<open>cell \<dots> False 1\<close>, true negatives
  \<open>cell \<dots> False 0\<close>.
\<close>

definition cell :: "rat list list \<Rightarrow> rat list \<Rightarrow> int list \<Rightarrow> bool \<Rightarrow> rat \<Rightarrow> nat" where
  "cell dataset predictions idxs actual predicted =
     length (filter (\<lambda>i. (last (dataset ! py_norm (length dataset) i) = 1) = actual \<and>
                          predictions ! py_norm (length predictions) i = predicted) idxs)"

definition all_cells_realised :: "rat list list \<Rightarrow> rat list \<Rightarrow> int list \<Rightarrow> bool" where
  "all_cells_realised dataset predictions idxs =
     (0 < cell dataset predictions idxs False 0 \<and> 0 < cell dataset predictions idxs False 1 \<and>
      0 < cell dataset predictions idxs True 0 \<and> 0 < cell dataset predictions idxs True 1)"

section \<open>Auxiliary facts\<close>

lemma row_fold_props:
  assumes "length r = k" "list_all (\<lambda>x. length x = k) rs"
  shows "length (foldl (map2 (+)) r rs) = k \<and> (\<forall>j<k. foldl (map2 (+)) r rs ! j = r ! j + (\<Sum>x\<leftarrow>rs. x ! j))"
  using assms
proof (induction rs arbitrary: r)
  case Nil
  then show ?case by simp
next
  case (Cons a rs)
  have l: "length (map2 (+) r a) = k" using Cons.prems by simp
  have r: "list_all (\<lambda>x. length x = k) rs" using Cons.prems by simp
  from Cons.IH[OF l r] Cons.prems show ?case by (auto simp: add.assoc)
qed

lemma np_mean_axis0_matrix:
  assumes "is_matrix k rows" "rows \<noteq> []"
  shows "np_mean_axis0 rows = Some (mean_vector rows)"
proof -
  obtain r rs where rows: "rows = r # rs" using assms(2) by (cases rows) auto
  have lr: "length r = k" and lrs: "list_all (\<lambda>x. length x = k) rs"
    using assms(1) by (simp_all add: rows is_matrix_def)
  note fp = row_fold_props[OF lr lrs]
  have "map (\<lambda>c. c / of_nat (length rows)) (foldl (map2 (+)) r rs) = mean_vector rows"
    by (rule nth_equalityI) (use fp lr in \<open>simp_all add: mean_vector_def rows\<close>)
  then show ?thesis by (simp add: np_mean_axis0_def rows)
qed

lemma length_mean_vector: "is_matrix k rows \<Longrightarrow> rows \<noteq> [] \<Longrightarrow> length (mean_vector rows) = k"
  by (cases rows) (simp_all add: mean_vector_def is_matrix_def)

lemma mean_vector_nth:
  "is_matrix k rows \<Longrightarrow> rows \<noteq> [] \<Longrightarrow> j < k \<Longrightarrow>
   mean_vector rows ! j = (\<Sum>x\<leftarrow>rows. x ! j) / of_nat (length rows)"
  by (cases rows) (simp_all add: mean_vector_def is_matrix_def)

lemma is_matrix_butlast: "is_matrix k rows \<Longrightarrow> is_matrix (k - 1) (map butlast rows)"
  by (simp add: is_matrix_def list_all_iff)

lemma is_matrix_filter: "is_matrix k rows \<Longrightarrow> is_matrix k (filter P rows)"
  by (simp add: is_matrix_def list_all_iff)

lemma sum_col_butlast:
  "is_matrix k rows \<Longrightarrow> j < k - 1 \<Longrightarrow> (\<Sum>x\<leftarrow>rows. butlast x ! j) = (\<Sum>x\<leftarrow>rows. x ! j)"
  by (induction rows) (simp_all add: is_matrix_def nth_butlast)

lemma butlast_mean_vector:
  assumes "is_matrix k rows" "rows \<noteq> []"
  shows "butlast (mean_vector rows) = mean_vector (map butlast rows)"
proof (rule nth_equalityI)
  have m': "is_matrix (k - 1) (map butlast rows)" using assms(1) by (rule is_matrix_butlast)
  have ne': "map butlast rows \<noteq> []" using assms(2) by simp
  show len: "length (butlast (mean_vector rows)) = length (mean_vector (map butlast rows))"
    by (simp add: length_mean_vector[OF assms] length_mean_vector[OF m' ne'])
  fix j assume "j < length (butlast (mean_vector rows))"
  then have j: "j < k - 1" by (simp add: length_mean_vector[OF assms])
  then have jk: "j < k" by simp
  show "butlast (mean_vector rows) ! j = mean_vector (map butlast rows) ! j"
    using j by (simp add: nth_butlast length_mean_vector[OF assms] mean_vector_nth[OF assms jk]
        mean_vector_nth[OF m' ne' j] sum_col_butlast[OF assms(1) j] comp_def)
qed

lemma getitem_last: "xs \<noteq> [] \<Longrightarrow> getitem xs (- 1) = Inr (last xs)"
  by (cases xs rule: rev_cases) (simp_all add: getitem_def py_in_range_def py_norm_def nat_add_distrib nth_append)

lemma py_norm_less: "py_in_range n i \<Longrightarrow> py_norm n i < n"
  by (auto simp: py_in_range_def py_norm_def)

lemma fit_select_matrix:
  assumes "is_matrix d dataset" "py_in_range d (sensitive_feature self)"
  shows "fit_select inA self dataset = Inr (positives inA self dataset)"
  using assms(1)
proof (induction dataset)
  case Nil
  then show ?case by (simp add: positives_def)
next
  case (Cons ex rest)
  have len: "length ex = d" and rest: "is_matrix d rest"
    using Cons.prems by (simp_all add: is_matrix_def)
  have ne: "ex \<noteq> []" using len assms(2) by (auto simp: py_in_range_def)
  have g: "getitem ex (sensitive_feature self) =
      Inr (ex ! py_norm (length ex) (sensitive_feature self))"
    using assms(2) len by (simp add: getitem_def)
  show ?case
    using Cons.IH[OF rest] by (simp add: getitem_last[OF ne] g bind_err_def positives_def)
qed

lemma is_matrix_positives: "is_matrix d dataset \<Longrightarrow> is_matrix d (positives inA self dataset)"
  by (simp add: positives_def is_matrix_filter)

lemma is_matrix_positives_butlast:
  "is_matrix d dataset \<Longrightarrow> is_matrix (d - 1) (map butlast (positives inA self dataset))"
  by (rule is_matrix_butlast) (rule is_matrix_positives)

lemma fit_diff_matrix:
  assumes m: "is_matrix d dataset"
    and rng: "py_in_range d (sensitive_feature self)"
    and neA: "positives True self dataset \<noteq> []"
    and neB: "positives False self dataset \<noteq> []"
  shows "fit_diff self dataset =
     Inr (map2 (-) (mean_vector (map butlast (positives True self dataset)))
                   (mean_vector (map butlast (positives False self dataset))))"
proof -
  have mA: "is_matrix d (positives True self dataset)"
    and mB: "is_matrix d (positives False self dataset)"
    using m by (simp_all add: positives_def is_matrix_filter)
  have lA: "length (mean_vector (map butlast (positives True self dataset))) = d - 1"
    using is_matrix_butlast[OF mA] neA by (simp add: length_mean_vector)
  have lB: "length (mean_vector (map butlast (positives False self dataset))) = d - 1"
    using is_matrix_butlast[OF mB] neB by (simp add: length_mean_vector)
  show ?thesis
    by (simp add: fit_diff_def fit_select_matrix[OF m rng] bind_err_def
        np_mean_axis0_matrix[OF mA neA] np_mean_axis0_matrix[OF mB neB] slice_init_def
        butlast_mean_vector[OF mA neA] butlast_mean_vector[OF mB neB] np_broadcast2_def lA lB)
qed

lemma fit_diff_empty:
  assumes m: "is_matrix d dataset"
    and rng: "py_in_range d (sensitive_feature self)"
    and e: "positives True self dataset = [] \<or> positives False self dataset = []"
  shows "fit_diff self dataset = Inl IndexError"
proof (cases "positives True self dataset = []")
  case True
  then show ?thesis
    by (simp add: fit_diff_def fit_select_matrix[OF m rng] bind_err_def np_mean_axis0_def
        slice_init_def)
next
  case False
  then have B: "positives False self dataset = []" using e by simp
  have mA: "is_matrix d (positives True self dataset)"
    using m by (simp add: positives_def is_matrix_filter)
  show ?thesis
    by (simp add: fit_diff_def fit_select_matrix[OF m rng] bind_err_def B
        np_mean_axis0_matrix[OF mA False] slice_init_def)
      (simp add: np_mean_axis0_def)
qed

lemma feature_index:
  assumes m: "is_matrix d dataset"
    and rng: "py_in_range d (sensitive_feature self)"
    and neA: "positives True self dataset \<noteq> []"
    and neB: "positives False self dataset \<noteq> []"
  shows "py_norm d (sensitive_feature self) < d - 1"
proof -
  let ?j = "py_norm d (sensitive_feature self)"
  obtain a where a: "a \<in> set (positives True self dataset)"
    using neA by (cases "positives True self dataset") auto
  obtain b where b: "b \<in> set (positives False self dataset)"
    using neB by (cases "positives False self dataset") auto
  have len: "\<forall>x\<in>set dataset. length x = d"
    using m by (simp add: is_matrix_def list_all_iff)
  have la: "length a = d" and lb: "length b = d"
    using a b len by (auto simp: positives_def)
  have pa: "last a = 1" "a ! ?j = val0 self" using a la by (auto simp: positives_def)
  have pb: "last b = 1" "b ! ?j \<noteq> val0 self" using b lb by (auto simp: positives_def)
  have lt: "?j < d" by (rule py_norm_less[OF rng])
  have "?j \<noteq> d - 1"
  proof
    assume e: "?j = d - 1"
    have "a \<noteq> []" "b \<noteq> []" using la lb lt by auto
    then have "a ! ?j = last a" "b ! ?j = last b"
      unfolding e using la lb by (simp_all add: last_conv_nth)
    then show False using pa pb by simp
  qed
  then show ?thesis using lt by simp
qed

lemma fit_matrix:
  assumes m: "is_matrix d dataset"
    and rng: "py_in_range d (sensitive_feature self)"
    and nd: "sensitive_feature self \<noteq> - int d"
    and neA: "positives True self dataset \<noteq> []"
    and neB: "positives False self dataset \<noteq> []"
  shows "fit self dataset =
     Inr (self\<lparr>u := Some ((map2 (-) (mean_vector (map butlast (positives True self dataset)))
                                    (mean_vector (map butlast (positives False self dataset))))
                             [py_norm (d - 1) (sensitive_feature self) := - 1])\<rparr>)"
proof -
  have mA: "is_matrix (d - 1) (map butlast (positives True self dataset))"
    and mB: "is_matrix (d - 1) (map butlast (positives False self dataset))"
    using m by (rule is_matrix_positives_butlast)+
  have lA: "length (mean_vector (map butlast (positives True self dataset))) = d - 1"
    using mA neA by (simp add: length_mean_vector)
  have lB: "length (mean_vector (map butlast (positives False self dataset))) = d - 1"
    using mB neB by (simp add: length_mean_vector)
  have fi: "py_norm d (sensitive_feature self) < d - 1"
    by (rule feature_index[OF m rng neA neB])
  have rng': "py_in_range (d - 1) (sensitive_feature self)"
    using fi rng nd unfolding py_in_range_def py_norm_def by (auto split: if_splits)
  show ?thesis
    using rng'
    by (simp add: fit_def fit_diff_matrix[OF m rng neA neB] bind_err_def setitem_def lA lB)
qed

lemma fit_select_subset:
  "fit_select inA self dataset = Inr t \<Longrightarrow> set t \<subseteq> set dataset"
proof (induction dataset arbitrary: t)
  case Nil
  then show ?case by simp
next
  case (Cons ex rest)
  then show ?case
    by (auto simp: bind_err_def split: sum.splits if_splits)
qed

lemma sum_col_const:
  "\<forall>x\<in>set rows. f x = (c::rat) \<Longrightarrow> (\<Sum>x\<leftarrow>rows. f x) = of_nat (length rows) * c"
  by (induction rows) (simp_all add: algebra_simps)

lemma shift_rows_matrix:
  assumes "is_matrix (length uv) examples" "py_in_range (length uv) (sensitive_feature self)"
  shows "shift_rows self uv examples =
     Inr (map (\<lambda>ex. if ex ! py_norm (length uv) (sensitive_feature self) = val0 self then ex
                     else map2 (+) ex uv) examples)"
  using assms(1)
proof (induction examples)
  case Nil
  then show ?case by simp
next
  case (Cons ex rest)
  have len: "length ex = length uv" and rest: "is_matrix (length uv) rest"
    using Cons.prems by (simp_all add: is_matrix_def)
  show ?case
    using Cons.IH[OF rest] assms(2)
    by (simp add: getitem_def len bind_err_def np_broadcast2_def)
qed

lemma np_delete_axis1_matrix:
  "rows \<noteq> [] \<Longrightarrow> is_matrix k rows \<Longrightarrow> py_in_range k i \<Longrightarrow>
   np_delete_axis1 rows i = Inr (map (delete_at (py_norm k i)) rows)"
  by (cases rows) (simp_all add: np_delete_axis1_def is_matrix_def)

lemma is_matrix_shifted:
  "is_matrix (length uv) examples \<Longrightarrow>
   is_matrix (length uv) (map (\<lambda>ex. if P ex then ex else map2 (+) ex uv) examples)"
  by (induction examples) (simp_all add: is_matrix_def)

lemma new_representation_matrix:
  assumes fitted: "u self = Some uv"
    and ne: "examples \<noteq> []"
    and m: "is_matrix (length uv) examples"
    and rng: "py_in_range (length uv) (sensitive_feature self)"
  shows "new_representation self examples =
     Inr (map (\<lambda>ex. delete_at (py_norm (length uv) (sensitive_feature self))
                 (if ex ! py_norm (length uv) (sensitive_feature self) = val0 self then ex
                  else map2 (+) ex uv)) examples)"
proof -
  let ?j = "py_norm (length uv) (sensitive_feature self)"
  let ?g = "\<lambda>ex. if ex ! ?j = val0 self then ex else map2 (+) ex uv"
  have ne': "map ?g examples \<noteq> []" using ne by simp
  have d: "np_delete_axis1 (map ?g examples) (sensitive_feature self) =
          Inr (map (delete_at ?j) (map ?g examples))"
    by (rule np_delete_axis1_matrix[OF ne' is_matrix_shifted[OF m] rng])
  have "new_representation self examples =
          np_delete_axis1 (map ?g examples) (sensitive_feature self)"
    by (simp add: new_representation_def fitted shift_rows_matrix[OF m rng] bind_err_def)
  then show ?thesis
    unfolding d by (simp add: comp_def)
qed

lemma length_delete_at: "length (delete_at n xs) = length xs - (if n < length xs then 1 else 0)"
  by (auto simp: delete_at_def)

lemma delete_at_nth:
  "j < length xs - 1 \<Longrightarrow> delete_at i xs ! j = xs ! (if j < i then j else Suc j)"
  by (auto simp: delete_at_def nth_append min_def)

lemma filter_zip_map:
  "map snd (filter (\<lambda>(x, y). P x) (zip xs (map h xs))) = map h (filter P xs)"
  by (induction xs) simp_all

lemma sum_list_add_const:
  "(\<Sum>x\<leftarrow>xs. f x + (c::rat)) = (\<Sum>x\<leftarrow>xs. f x) + of_nat (length xs) * c"
  by (induction xs) (simp_all add: algebra_simps)

lemma sum_list_cong_set:
  "\<forall>x\<in>set xs. f x = g x \<Longrightarrow> (\<Sum>x\<leftarrow>xs. f x) = (\<Sum>x\<leftarrow>xs. (g x :: rat))"
  by (induction xs) simp_all

lemma is_matrix_delete_at:
  "is_matrix k rows \<Longrightarrow> i < k \<Longrightarrow> is_matrix (k - 1) (map (delete_at i) rows)"
  by (induction rows) (simp_all add: is_matrix_def length_delete_at)

lemma mean_deleted_col:
  assumes m: "is_matrix k rows" and ne: "rows \<noteq> []" and i: "i < k" and j: "j < k - 1"
  shows "mean_vector (map (delete_at i) rows) ! j = mean_vector rows ! (if j < i then j else Suc j)"
proof -
  let ?c = "if j < i then j else Suc j"
  have c: "?c < k" using j by auto
  have m': "is_matrix (k - 1) (map (delete_at i) rows)" by (rule is_matrix_delete_at[OF m i])
  have ne': "map (delete_at i) rows \<noteq> []" using ne by simp
  have "\<forall>x\<in>set rows. delete_at i x ! j = x ! ?c"
  proof
    fix x assume "x \<in> set rows"
    then have "length x = k" using m by (simp add: is_matrix_def list_all_iff)
    then show "delete_at i x ! j = x ! ?c" using j by (simp add: delete_at_nth)
  qed
  then have "(\<Sum>x\<leftarrow>rows. delete_at i x ! j) = (\<Sum>x\<leftarrow>rows. x ! ?c)"
    by (rule sum_list_cong_set)
  then show ?thesis
    by (simp add: mean_vector_nth[OF m' ne' j] mean_vector_nth[OF m ne c] comp_def)
qed

lemma is_matrix_add:
  "is_matrix k rows \<Longrightarrow> length w = k \<Longrightarrow> is_matrix k (map (\<lambda>x. map2 (+) x w) rows)"
  by (induction rows) (simp_all add: is_matrix_def)

lemma mean_shifted:
  assumes m: "is_matrix k rows" and ne: "rows \<noteq> []" and w: "length w = k" and j: "j < k"
  shows "mean_vector (map (\<lambda>x. map2 (+) x w) rows) ! j = mean_vector rows ! j + w ! j"
proof -
  have m': "is_matrix k (map (\<lambda>x. map2 (+) x w) rows)" by (rule is_matrix_add[OF m w])
  have ne': "map (\<lambda>x. map2 (+) x w) rows \<noteq> []" using ne by simp
  have "\<forall>x\<in>set rows. map2 (+) x w ! j = x ! j + w ! j"
  proof
    fix x assume "x \<in> set rows"
    then have "length x = k" using m by (simp add: is_matrix_def list_all_iff)
    then show "map2 (+) x w ! j = x ! j + w ! j" using j w by simp
  qed
  then have "(\<Sum>x\<leftarrow>rows. map2 (+) x w ! j) = (\<Sum>x\<leftarrow>rows. x ! j + w ! j)"
    by (rule sum_list_cong_set)
  also have "\<dots> = (\<Sum>x\<leftarrow>rows. x ! j) + of_nat (length rows) * (w ! j)"
    by (rule sum_list_add_const)
  finally have s: "(\<Sum>x\<leftarrow>rows. map2 (+) x w ! j) = (\<Sum>x\<leftarrow>rows. x ! j) + of_nat (length rows) * (w ! j)" .
  have n: "(of_nat (length rows) :: rat) \<noteq> 0" using ne by simp
  show ?thesis
    using n by (simp add: mean_vector_nth[OF m' ne' j] mean_vector_nth[OF m ne j] comp_def s
        add_divide_distrib)
qed

lemma transformed_positives_map:
  "transformed_positives inA self dataset (map h dataset) = map h (positives inA self dataset)"
  unfolding transformed_positives_def positives_def by (rule filter_zip_map)

lemma select_mask_Cons:
  "select_mask (b # bs) (x # xs) = (if b then x # select_mask bs xs else select_mask bs xs)"
  by (simp add: select_mask_def)

lemma select_mask_Nil: "select_mask [] xs = []"
  by (simp add: select_mask_def)

lemma split_masks_partition:
  "length rs = length xs \<Longrightarrow>
   mset (select_mask (train_list rs) xs) + mset (select_mask (val_list rs) xs) +
   mset (select_mask (batch_list rs) xs) = mset xs"
proof (induction rs xs rule: list_induct2)
  case Nil
  then show ?case by (simp add: train_list_def val_list_def batch_list_def select_mask_Nil)
next
  case (Cons r rs x xs)
  have t: "train_list (r # rs) = (r < 8 / 10) # train_list rs"
    and v: "val_list (r # rs) = (r \<ge> 8 / 10 \<and> r < 9 / 10) # val_list rs"
    and b: "batch_list (r # rs) = (r \<ge> 9 / 10) # batch_list rs"
    by (simp_all add: train_list_def val_list_def batch_list_def)
  consider "r < 8 / 10" | "r \<ge> 8 / 10" "r < 9 / 10" | "r \<ge> 9 / 10" by linarith
  then show ?case
  proof cases
    case 1
    then show ?thesis using Cons.IH by (simp add: t v b select_mask_Cons)
  next
    case 2
    then show ?thesis using Cons.IH by (simp add: t v b select_mask_Cons)
  next
    case 3
    then show ?thesis using Cons.IH by (simp add: t v b select_mask_Cons)
  qed
qed

lemma split_masks_exactly_one:
  assumes "i < length rs"
  shows "(train_list rs ! i \<and> \<not> val_list rs ! i \<and> \<not> batch_list rs ! i) \<or>
         (\<not> train_list rs ! i \<and> val_list rs ! i \<and> \<not> batch_list rs ! i) \<or>
         (\<not> train_list rs ! i \<and> \<not> val_list rs ! i \<and> batch_list rs ! i)"
  using assms by (simp add: train_list_def val_list_def batch_list_def) linarith

lemma map_err_total:
  "\<forall>x\<in>set xs. f x = Inr (g x) \<Longrightarrow> map_err f xs = Inr (map g xs)"
  by (induction xs) (simp_all add: bind_err_def)

lemma take_idxs_in_range:
  assumes "list_all (py_in_range (length arr)) idxs"
  shows "take_idxs arr idxs = Inr (map (\<lambda>i. arr ! py_norm (length arr) i) idxs)"
  unfolding take_idxs_def
  by (rule map_err_total) (use assms in \<open>simp add: list_all_iff getitem_def\<close>)

lemma positive_labels_rows:
  assumes "\<forall>r\<in>set rows. r \<noteq> []"
  shows "positive_labels rows = Inr (map (\<lambda>r. if last r = 1 then 1 else 0) rows)"
proof -
  have "map_err (\<lambda>r. getitem r (- 1)) rows = Inr (map last rows)"
    by (rule map_err_total) (use assms in \<open>simp add: getitem_last\<close>)
  then show ?thesis by (simp add: positive_labels_def bind_err_def comp_def)
qed

lemma count_zip_map:
  "length (filter (\<lambda>(a, b). a = t \<and> b = p) (zip (map f xs) (map g xs))) =
   length (filter (\<lambda>i. f i = t \<and> g i = p) xs)"
  by (induction xs) simp_all

lemma sort_remdups_01:
  assumes "set xs = {0, 1::rat}"
  shows "sort (remdups xs) = [0, 1]"
proof -
  have "sort (remdups xs) = sorted_list_of_set (set xs)"
    by (simp add: sorted_list_of_set_sort_remdups)
  then show ?thesis by (simp add: assms)
qed

lemma confusion_matrix_binary:
  assumes s: "set (map f xs @ map g xs) = {0, 1::rat}"
  shows "confusion_matrix (map f xs) (map g xs) =
     Inr [[length (filter (\<lambda>i. f i = 0 \<and> g i = 0) xs), length (filter (\<lambda>i. f i = 0 \<and> g i = 1) xs)],
          [length (filter (\<lambda>i. f i = 1 \<and> g i = 0) xs), length (filter (\<lambda>i. f i = 1 \<and> g i = 1) xs)]]"
proof -
  have int: "list_all (\<lambda>x. x = of_int \<lfloor>x\<rfloor>) (map f xs @ map g xs)"
    unfolding list_all_iff s by simp
  show ?thesis
    unfolding confusion_matrix_def Let_def sort_remdups_01[OF s] count_zip_map
    using int by simp
qed

lemma group_cells_binary:
  assumes rng: "list_all (py_in_range (length dataset)) idxs"
    and lenp: "length predictions = length dataset"
    and rows: "\<forall>r\<in>set dataset. r \<noteq> []"
    and bin: "\<forall>i\<in>set idxs. predictions ! py_norm (length predictions) i \<in> {0, 1}"
    and tn: "0 < cell dataset predictions idxs False 0"
    and tp: "0 < cell dataset predictions idxs True 1"
  shows "group_cells dataset predictions idxs =
     Inr (cell dataset predictions idxs False 0, cell dataset predictions idxs False 1,
          cell dataset predictions idxs True 0, cell dataset predictions idxs True 1)"
proof -
  let ?row = "\<lambda>i. dataset ! py_norm (length dataset) i"
  let ?f = "\<lambda>i. if last (?row i) = 1 then 1 else (0::rat)"
  let ?g = "\<lambda>i. predictions ! py_norm (length predictions) i"
  have t1: "take_idxs dataset idxs = Inr (map ?row idxs)"
    by (rule take_idxs_in_range[OF rng])
  have "\<forall>r\<in>set (map ?row idxs). r \<noteq> []"
    using rng rows by (auto simp: list_all_iff dest!: py_norm_less)
  then have "positive_labels (map ?row idxs) = Inr (map (\<lambda>r. if last r = 1 then 1 else 0) (map ?row idxs))"
    by (rule positive_labels_rows)
  then have t2: "positive_labels (map ?row idxs) = Inr (map ?f idxs)"
    by (simp add: comp_def)
  have t3: "take_idxs predictions idxs = Inr (map ?g idxs)"
    by (rule take_idxs_in_range) (use rng lenp in simp)
  obtain i0 where i0: "i0 \<in> set idxs" "?f i0 = 0"
  proof -
    from tn have "filter (\<lambda>i. (last (?row i) = 1) = False \<and> ?g i = 0) idxs \<noteq> []"
      unfolding cell_def by (metis length_greater_0_conv)
    then obtain i where "i \<in> set idxs" "last (?row i) \<noteq> 1"
      by (auto simp: filter_empty_conv)
    then show ?thesis using that by auto
  qed
  obtain i1 where i1: "i1 \<in> set idxs" "?f i1 = 1"
  proof -
    from tp have "filter (\<lambda>i. (last (?row i) = 1) = True \<and> ?g i = 1) idxs \<noteq> []"
      unfolding cell_def by (metis length_greater_0_conv)
    then obtain i where "i \<in> set idxs" "last (?row i) = 1"
      by (auto simp: filter_empty_conv)
    then show ?thesis using that by auto
  qed
  have sub: "set (map ?f idxs @ map ?g idxs) \<subseteq> {0, 1}" using bin by auto
  have "0 \<in> set (map ?f idxs)"
    unfolding set_map by (rule image_eqI[where x = i0]) (use i0 in simp_all)
  moreover have "1 \<in> set (map ?f idxs)"
    unfolding set_map by (rule image_eqI[where x = i1]) (use i1 in simp_all)
  ultimately have s: "set (map ?f idxs @ map ?g idxs) = {0, 1}" using sub by auto
  have f0: "\<And>i. (?f i = 0) = ((last (?row i) = 1) = False)"
    and f1: "\<And>i. (?f i = 1) = ((last (?row i) = 1) = True)" by simp_all
  have cm: "confusion_matrix (map ?f idxs) (map ?g idxs) =
     Inr [[cell dataset predictions idxs False 0, cell dataset predictions idxs False 1],
          [cell dataset predictions idxs True 0, cell dataset predictions idxs True 1]]"
    unfolding confusion_matrix_binary[OF s] cell_def f0 f1 by (rule refl)
  show ?thesis
    by (simp add: group_cells_def t1 t2 t3 cm bind_err_def unpack4_def)
qed

text \<open>
  \<open>fit\<close> on the store keeps \<open>val0\<close>, \<open>sensitive_feature\<close> and every array that existed
  before, the dataset among them: the array it updates in place is the new one it has
  bound \<open>u\<close> to.
\<close>

lemma fit_st_frame:
  assumes "fit_st s dataset = (r, s')"
  shows "o_val0 (this s') = o_val0 (this s) \<and>
         o_sensitive_feature (this s') = o_sensitive_feature (this s) \<and>
         length (heap s) \<le> length (heap s') \<and>
         (\<forall>a<length (heap s). heap s' ! a = heap s ! a)"
  using assms
  by (auto simp: fit_st_def alloc_def nth_append
      split: option.splits ndarray.splits sum.splits prod.splits)

lemma fit_st_binds_u:
  assumes "fit_st s dataset = (Inr (), s')"
  shows "o_u (this s') = Some (length (heap s)) \<and> length (heap s') = Suc (length (heap s))"
  using assms
  by (auto simp: fit_st_def alloc_def
      split: option.splits ndarray.splits sum.splits prod.splits)

section \<open>Properties of the transform\<close>

text \<open>
  C1. With a negative sensitive index \<open>fit\<close> and \<open>new_representation\<close> read different
  columns, the feature rows being one shorter than the rows of the dataset: both return,
  and the means of the two positive groups differ afterwards (here by 3 on the first
  column).
\<close>

theorem transform_negative_index_counterexample:
  "positives True (init (- 2) 0) [[3, 5, 0, 1], [5, 7, 0, 1], [1, 2, 1, 1], [9, 9, 1, 0], [2, 2, 0, 0]]
     = [[3, 5, 0, 1], [5, 7, 0, 1]] \<and>
   positives False (init (- 2) 0) [[3, 5, 0, 1], [5, 7, 0, 1], [1, 2, 1, 1], [9, 9, 1, 0], [2, 2, 0, 0]]
     = [[1, 2, 1, 1]] \<and>
   fit (init (- 2) 0) [[3, 5, 0, 1], [5, 7, 0, 1], [1, 2, 1, 1], [9, 9, 1, 0], [2, 2, 0, 0]]
     = Inr \<lparr>val0 = 0, sensitive_feature = - 2, u = Some [3, - 1, - 1]\<rparr> \<and>
   new_representation \<lparr>val0 = 0, sensitive_feature = - 2, u = Some [3, - 1, - 1]\<rparr>
       (map butlast [[3, 5, 0, 1], [5, 7, 0, 1], [1, 2, 1, 1], [9, 9, 1, 0], [2, 2, 0, 0]])
     = Inr [[6, - 1], [8, - 1], [4, 0], [12, 0], [5, - 1]] \<and>
   mean_vector (transformed_positives True (init (- 2) 0)
       [[3, 5, 0, 1], [5, 7, 0, 1], [1, 2, 1, 1], [9, 9, 1, 0], [2, 2, 0, 0]]
       [[6, - 1], [8, - 1], [4, 0], [12, 0], [5, - 1]]) = [7, - 1] \<and>
   mean_vector (transformed_positives False (init (- 2) 0)
       [[3, 5, 0, 1], [5, 7, 0, 1], [1, 2, 1, 1], [9, 9, 1, 0], [2, 2, 0, 0]]
       [[6, - 1], [8, - 1], [4, 0], [12, 0], [5, - 1]]) = [4, 0]"
  by (simp add: positives_def transformed_positives_def mean_vector_def init_def fit_def
      fit_diff_def bind_err_def getitem_def py_in_range_def py_norm_def np_mean_axis0_def
      slice_init_def np_broadcast2_def setitem_def new_representation_def np_delete_axis1_def
      delete_at_def)

text \<open>
  C1, amended. Let the dataset have \<open>d\<close> columns, the sensitive index be a column number
  counted from 0 and both groups have a positively-labelled example. Then \<open>fit\<close> returns,
  and \<open>new_representation\<close> of the fitted object on the feature rows of the same dataset
  (the rows without their label) returns rows of \<open>d - 2\<close> columns for which, on every
  column, the mean over the positively-labelled group-A rows minus the mean over the
  positively-labelled group-B rows is exactly zero.
\<close>

theorem transform_equalises_positive_means:
  assumes m: "is_matrix d dataset"
    and sf: "0 \<le> sensitive_feature self" "sensitive_feature self < int d"
    and neA: "positives True self dataset \<noteq> []"
    and neB: "positives False self dataset \<noteq> []"
  shows "\<exists>self' out.
           fit self dataset = Inr self' \<and>
           new_representation self' (map butlast dataset) = Inr out \<and>
           length out = length dataset \<and> is_matrix (d - 2) out \<and>
           (\<forall>j<d - 2. mean_vector (transformed_positives True self dataset out) ! j -
                       mean_vector (transformed_positives False self dataset out) ! j = 0)"
proof -
  let ?i = "nat (sensitive_feature self)"
  let ?A = "positives True self dataset" and ?B = "positives False self dataset"
  let ?mA = "mean_vector (map butlast ?A)" and ?mB = "mean_vector (map butlast ?B)"
  let ?v = "map2 (-) ?mA ?mB"
  let ?uv = "?v[?i := - 1]"
  let ?self' = "self\<lparr>u := Some ?uv\<rparr>"
  let ?g = "\<lambda>ex. delete_at ?i (if ex ! ?i = val0 self then ex else map2 (+) ex ?uv)"
  let ?out = "map (\<lambda>ex. ?g (butlast ex)) dataset"
  have rngd: "py_in_range d (sensitive_feature self)"
    using sf by (simp add: py_in_range_def)
  have nd: "sensitive_feature self \<noteq> - int d" using sf by simp
  have nrmd: "\<And>n. py_norm n (sensitive_feature self) = ?i"
    using sf(1) by (simp add: py_norm_def)
  have i: "?i < d - 1"
    using feature_index[OF m rngd neA neB] by (simp add: nrmd)
  have mbA: "is_matrix (d - 1) (map butlast ?A)" and mbB: "is_matrix (d - 1) (map butlast ?B)"
    using m by (rule is_matrix_positives_butlast)+
  have neA': "map butlast ?A \<noteq> []" and neB': "map butlast ?B \<noteq> []" using neA neB by simp_all
  have lmA: "length ?mA = d - 1" by (rule length_mean_vector[OF mbA neA'])
  have lmB: "length ?mB = d - 1" by (rule length_mean_vector[OF mbB neB'])
  have luv: "length ?uv = d - 1" by (simp add: lmA lmB)
  have fit: "fit self dataset = Inr ?self'"
    using fit_matrix[OF m rngd nd neA neB] by (simp add: nrmd)
  have ne: "map butlast dataset \<noteq> []" using neA by (auto simp: positives_def)
  have mb: "is_matrix (length ?uv) (map butlast dataset)"
    unfolding luv by (rule is_matrix_butlast[OF m])
  have rng: "py_in_range (length ?uv) (sensitive_feature ?self')"
    unfolding luv using i sf(1) by (simp add: py_in_range_def) linarith
  have "new_representation ?self' (map butlast dataset) =
      Inr (map (\<lambda>ex. delete_at (py_norm (length ?uv) (sensitive_feature ?self'))
                 (if ex ! py_norm (length ?uv) (sensitive_feature ?self') = val0 ?self' then ex
                  else map2 (+) ex ?uv)) (map butlast dataset))"
    by (rule new_representation_matrix[OF _ ne mb rng]) simp
  then have nr: "new_representation ?self' (map butlast dataset) = Inr ?out"
    by (simp add: comp_def nrmd)
  have lenrow: "\<forall>x\<in>set dataset. length x = d"
    using m by (simp add: is_matrix_def list_all_iff)
  have mout: "is_matrix (d - 2) ?out"
    using lenrow i luv by (auto simp: is_matrix_def list_all_iff length_delete_at)
  have outA: "transformed_positives True self dataset ?out = map (delete_at ?i) (map butlast ?A)"
  proof -
    have "\<forall>x\<in>set ?A. ?g (butlast x) = delete_at ?i (butlast x)"
      using lenrow i by (auto simp: positives_def nth_butlast nrmd)
    then show ?thesis by (simp add: transformed_positives_map comp_def)
  qed
  have outB: "transformed_positives False self dataset ?out =
      map (delete_at ?i) (map (\<lambda>x. map2 (+) x ?uv) (map butlast ?B))"
  proof -
    have "\<forall>x\<in>set ?B. ?g (butlast x) = delete_at ?i (map2 (+) (butlast x) ?uv)"
      using lenrow i by (auto simp: positives_def nth_butlast nrmd)
    then show ?thesis by (simp add: transformed_positives_map comp_def)
  qed
  have eq: "mean_vector (transformed_positives True self dataset ?out) ! j -
            mean_vector (transformed_positives False self dataset ?out) ! j = 0" if j: "j < d - 2" for j
  proof -
    let ?c = "if j < ?i then j else Suc j"
    have j': "j < d - 1 - 1" using j by simp
    have c: "?c < d - 1" using j by auto
    have ci: "?c \<noteq> ?i" by auto
    have a: "mean_vector (transformed_positives True self dataset ?out) ! j = ?mA ! ?c"
      unfolding outA by (rule mean_deleted_col[OF mbA neA' i j'])
    have msh: "is_matrix (d - 1) (map (\<lambda>x. map2 (+) x ?uv) (map butlast ?B))"
      by (rule is_matrix_add[OF mbB luv])
    have nsh: "map (\<lambda>x. map2 (+) x ?uv) (map butlast ?B) \<noteq> []" using neB by simp
    have "mean_vector (transformed_positives False self dataset ?out) ! j =
          mean_vector (map (\<lambda>x. map2 (+) x ?uv) (map butlast ?B)) ! ?c"
      unfolding outB by (rule mean_deleted_col[OF msh nsh i j'])
    also have "\<dots> = ?mB ! ?c + ?uv ! ?c"
      by (rule mean_shifted[OF mbB neB' luv c])
    also have "?uv ! ?c = ?mA ! ?c - ?mB ! ?c"
      using c ci by (simp add: lmA lmB)
    finally show ?thesis using a by simp
  qed
  show ?thesis
    using fit nr mout eq by (intro exI[of _ ?self'] exI[of _ ?out]) simp
qed

theorem transform_equalises_positive_means_witness:
  "is_matrix 4 [[3, 0, 5, 1], [5, 0, 7, 1], [1, 1, 2, 1], [9, 1, 9, 0], [2, 0, 2, 0::rat]] \<and>
   positives True (init 1 0) [[3, 0, 5, 1], [5, 0, 7, 1], [1, 1, 2, 1], [9, 1, 9, 0], [2, 0, 2, 0]]
     \<noteq> [] \<and>
   positives False (init 1 0) [[3, 0, 5, 1], [5, 0, 7, 1], [1, 1, 2, 1], [9, 1, 9, 0], [2, 0, 2, 0]]
     \<noteq> [] \<and>
   (\<exists>self' out.
      fit (init 1 0) [[3, 0, 5, 1], [5, 0, 7, 1], [1, 1, 2, 1], [9, 1, 9, 0], [2, 0, 2, 0]] = Inr self' \<and>
      new_representation self'
        (map butlast [[3, 0, 5, 1], [5, 0, 7, 1], [1, 1, 2, 1], [9, 1, 9, 0], [2, 0, 2, 0]]) = Inr out \<and>
      length out = length [[3, 0, 5, 1], [5, 0, 7, 1], [1, 1, 2, 1], [9, 1, 9, 0], [2, 0, 2, 0::rat]] \<and>
      is_matrix (4 - 2) out \<and>
      (\<forall>j<4 - 2. mean_vector (transformed_positives True (init 1 0)
                   [[3, 0, 5, 1], [5, 0, 7, 1], [1, 1, 2, 1], [9, 1, 9, 0], [2, 0, 2, 0]] out) ! j -
               mean_vector (transformed_positives False (init 1 0)
                   [[3, 0, 5, 1], [5, 0, 7, 1], [1, 1, 2, 1], [9, 1, 9, 0], [2, 0, 2, 0]] out) ! j = 0))"
proof -
  let ?ds = "[[3, 0, 5, 1], [5, 0, 7, 1], [1, 1, 2, 1], [9, 1, 9, 0], [2, 0, 2, 0::rat]]"
  have m: "is_matrix 4 ?ds" by (simp add: is_matrix_def)
  have s1: "0 \<le> sensitive_feature (init 1 0)" by (simp add: init_def)
  have s2: "sensitive_feature (init 1 0) < int 4" by (simp add: init_def)
  have a: "positives True (init 1 0) ?ds \<noteq> []" by (simp add: positives_def init_def py_norm_def)
  have b: "positives False (init 1 0) ?ds \<noteq> []" by (simp add: positives_def init_def py_norm_def)
  from transform_equalises_positive_means [OF m s1 s2 a b] m a b show ?thesis by blast
qed

text \<open>
  C3. With no row at all, a fitted \<open>new_representation\<close> raises an exception instead of
  returning, and a row of another width than \<open>u\<close> can be broadcast and keep its width.
\<close>

theorem new_representation_no_rows_counterexample:
  "new_representation \<lparr>val0 = 0, sensitive_feature = 0, u = Some [- 1, 2]\<rparr> [] = Inl AxisError \<and>
   new_representation \<lparr>val0 = 0, sensitive_feature = 0, u = Some [- 1, 2]\<rparr> [[5]] = Inr [[7]]"
  by (simp add: new_representation_def bind_err_def np_delete_axis1_def getitem_def
      py_in_range_def py_norm_def np_broadcast2_def delete_at_def)

text \<open>
  C3, amended. For a fitted object and a non-empty list of rows that are as long as \<open>u\<close>,
  with the sensitive index in range for that length (negative indices counting from the
  end), \<open>new_representation\<close> returns one row per input row: the row itself when its
  sensitive value is the group-A marker, the row plus \<open>u\<close> elementwise otherwise, in both
  cases without the sensitive column, hence one column shorter than the input row.
\<close>

theorem new_representation_rows:
  assumes "u self = Some uv"
    and "examples \<noteq> []"
    and "is_matrix (length uv) examples"
    and "py_in_range (length uv) (sensitive_feature self)"
  shows "\<exists>out. new_representation self examples = Inr out \<and> length out = length examples \<and>
           (\<forall>n<length examples.
              out ! n = delete_at (py_norm (length uv) (sensitive_feature self))
                          (if examples ! n ! py_norm (length uv) (sensitive_feature self) = val0 self
                           then examples ! n else map2 (+) (examples ! n) uv) \<and>
              length (out ! n) = length (examples ! n) - 1)"
proof -
  let ?j = "py_norm (length uv) (sensitive_feature self)"
  let ?g = "\<lambda>ex. delete_at ?j (if ex ! ?j = val0 self then ex else map2 (+) ex uv)"
  have nr: "new_representation self examples = Inr (map ?g examples)"
    by (rule new_representation_matrix[OF assms])
  have j: "?j < length uv"
    using assms(4) by (auto simp: py_in_range_def py_norm_def)
  have len: "\<forall>x\<in>set examples. length x = length uv"
    using assms(3) by (simp add: is_matrix_def list_all_iff)
  have "length (?g (examples ! n)) = length (examples ! n) - 1" if "n < length examples" for n
    using len that j by (auto simp: length_delete_at)
  then show ?thesis using nr by simp
qed

theorem new_representation_rows_witness:
  "u \<lparr>val0 = 0, sensitive_feature = - 2, u = Some [3, - 1, 4]\<rparr> = Some [3, - 1, 4] \<and>
   is_matrix (length [3, - 1, 4 :: rat]) [[3, 0, 5], [1, 1, 2]] \<and>
   py_in_range (length [3, - 1, 4 :: rat]) (- 2) \<and>
   new_representation \<lparr>val0 = 0, sensitive_feature = - 2, u = Some [3, - 1, 4]\<rparr>
       [[3, 0, 5], [1, 1, 2]] = Inr [[3, 5], [4, 6]] \<and>
   (\<exists>out. new_representation \<lparr>val0 = 0, sensitive_feature = - 2, u = Some [3, - 1, 4]\<rparr>
       [[3, 0, 5], [1, 1, 2]] = Inr out \<and> length out = 2 \<and>
       out ! 0 = delete_at 1 [3, 0, 5] \<and> out ! 1 = delete_at 1 (map2 (+) [1, 1, 2] [3, - 1, 4]) \<and>
       length (out ! 0) = 3 - 1)"
  using new_representation_rows [of "\<lparr>val0 = 0, sensitive_feature = - 2, u = Some [3, - 1, 4]\<rparr>"
      "[3, - 1, 4]" "[[3, 0, 5], [1, 1, 2]]"]
  by (simp add: is_matrix_def py_in_range_def py_norm_def new_representation_def bind_err_def
      getitem_def np_broadcast2_def np_delete_axis1_def delete_at_def)

text \<open>
  C4. When \<open>u\<close> is \<open>None\<close>, \<open>new_representation\<close> prints the warning and returns its
  argument: the same object, with the store and the instance as they were, and no
  exception for any argument. As a value, the result is the input.
\<close>

theorem new_representation_unfitted:
  "(o_u (this s) = None \<longrightarrow>
      new_representation_st s examples =
        (Inr examples, s\<lparr>stdout := stdout s @ [''You have to fit the model first...'']\<rparr>)) \<and>
   (u self = None \<longrightarrow> new_representation self rows = Inr rows)"
  by (simp add: new_representation_st_def new_representation_def)

theorem new_representation_unfitted_witness:
  "o_u (this \<lparr>this = \<lparr>o_val0 = 0, o_sensitive_feature = 1, o_u = None\<rparr>,
               heap = [Arr2 [[3, 1, 5], [4, 0, 6]]], stdout = []\<rparr>) = None \<and>
   new_representation_st \<lparr>this = \<lparr>o_val0 = 0, o_sensitive_feature = 1, o_u = None\<rparr>,
               heap = [Arr2 [[3, 1, 5], [4, 0, 6]]], stdout = []\<rparr> 0 =
     (Inr 0, \<lparr>this = \<lparr>o_val0 = 0, o_sensitive_feature = 1, o_u = None\<rparr>,
               heap = [Arr2 [[3, 1, 5], [4, 0, 6]]],
               stdout = [''You have to fit the model first...'']\<rparr>) \<and>
   u (init 1 0) = None \<and>
   new_representation (init 1 0) [[3, 1, 5], [4, 0, 6]] = Inr [[3, 1, 5], [4, 0, 6]]"
  using new_representation_unfitted [of
      "\<lparr>this = \<lparr>o_val0 = 0, o_sensitive_feature = 1, o_u = None\<rparr>,
        heap = [Arr2 [[3, 1, 5], [4, 0, 6]]], stdout = []\<rparr>" 0 "init 1 0" "[[3, 1, 5], [4, 0, 6]]"]
  by (simp add: init_def)

section \<open>Properties of fit\<close>

text \<open>
  C2. With the sensitive index \<open>-d\<close> on rows of \<open>d\<close> columns the rows have a sensitive
  value (their first entry) and both groups can have a positively-labelled example, but
  the vector of \<open>d - 1\<close> differences has no entry \<open>-d\<close>: the last assignment raises.
\<close>

theorem fit_sets_u_counterexample:
  "positives True (init (- 2) 3) [[3, 1], [4, 1]] = [[3, 1]] \<and>
   positives False (init (- 2) 3) [[3, 1], [4, 1]] = [[4, 1]] \<and>
   fit_diff (init (- 2) 3) [[3, 1], [4, 1]] = Inr [- 1] \<and>
   fit (init (- 2) 3) [[3, 1], [4, 1]] = Inl IndexError"
  by (simp add: positives_def init_def fit_def fit_diff_def bind_err_def getitem_def
      py_in_range_def py_norm_def np_mean_axis0_def slice_init_def np_broadcast2_def setitem_def)

text \<open>
  C2, amended. For a dataset with \<open>d\<close> columns, the last one the label, and a sensitive
  index in range for its rows other than \<open>-d\<close>: when both groups have a positively-labelled
  example, \<open>fit\<close> sets \<open>u\<close> to the mean feature vector (label column removed from every
  row) of the positively-labelled group-A examples minus that of the positively-labelled
  group-B examples, and then overwrites \<^verbatim>\<open>u[sensitive_feature]\<close> with \<open>-1\<close>.
\<close>

theorem fit_sets_u:
  assumes "is_matrix d dataset"
    and "py_in_range d (sensitive_feature self)"
    and "sensitive_feature self \<noteq> - int d"
    and "positives True self dataset \<noteq> []"
    and "positives False self dataset \<noteq> []"
  shows "fit self dataset =
     Inr (self\<lparr>u := Some ((map2 (-) (mean_vector (map butlast (positives True self dataset)))
                                    (mean_vector (map butlast (positives False self dataset))))
                             [py_norm (d - 1) (sensitive_feature self) := - 1])\<rparr>)"
  using assms by (rule fit_matrix)

theorem fit_sets_u_witness:
  "is_matrix 4 [[3, 0, 5, 1], [5, 0, 7, 1], [1, 1, 2, 1], [9, 1, 9, 0], [2, 0, 2, 0::rat]] \<and>
   py_in_range 4 (sensitive_feature (init 1 0)) \<and> py_in_range 4 (sensitive_feature (init (- 3) 0)) \<and>
   positives True (init 1 0) [[3, 0, 5, 1], [5, 0, 7, 1], [1, 1, 2, 1], [9, 1, 9, 0], [2, 0, 2, 0]]
     = [[3, 0, 5, 1], [5, 0, 7, 1]] \<and>
   positives False (init 1 0) [[3, 0, 5, 1], [5, 0, 7, 1], [1, 1, 2, 1], [9, 1, 9, 0], [2, 0, 2, 0]]
     = [[1, 1, 2, 1]] \<and>
   fit (init 1 0) [[3, 0, 5, 1], [5, 0, 7, 1], [1, 1, 2, 1], [9, 1, 9, 0], [2, 0, 2, 0]]
     = Inr \<lparr>val0 = 0, sensitive_feature = 1, u = Some [3, - 1, 4]\<rparr> \<and>
   positives True (init (- 3) 0) [[3, 0, 5, 1], [5, 0, 7, 1], [1, 1, 2, 1], [9, 1, 9, 0], [2, 0, 2, 0]]
     = [[3, 0, 5, 1], [5, 0, 7, 1]] \<and>
   positives False (init (- 3) 0) [[3, 0, 5, 1], [5, 0, 7, 1], [1, 1, 2, 1], [9, 1, 9, 0], [2, 0, 2, 0]]
     = [[1, 1, 2, 1]] \<and>
   fit (init (- 3) 0) [[3, 0, 5, 1], [5, 0, 7, 1], [1, 1, 2, 1], [9, 1, 9, 0], [2, 0, 2, 0]]
     = Inr \<lparr>val0 = 0, sensitive_feature = - 3, u = Some [- 1, - 1, 4]\<rparr>"
  using fit_sets_u [of 4 "[[3, 0, 5, 1], [5, 0, 7, 1], [1, 1, 2, 1], [9, 1, 9, 0], [2, 0, 2, 0]]" "init 1 0"]
    fit_sets_u [of 4 "[[3, 0, 5, 1], [5, 0, 7, 1], [1, 1, 2, 1], [9, 1, 9, 0], [2, 0, 2, 0]]" "init (- 3) 0"]
  by (simp add: is_matrix_def positives_def init_def mean_vector_def py_in_range_def py_norm_def)

text \<open>
  C5. With the sensitive index \<open>-d\<close> both groups have a positively-labelled example here
  and \<open>fit\<close> raises all the same, at the last assignment.
\<close>

theorem fit_fails_iff_empty_group_counterexample:
  "positives True (init (- 4) 3) [[3, 0, 5, 1], [5, 0, 7, 1], [1, 1, 2, 1], [9, 1, 9, 0], [2, 0, 2, 0]]
     = [[3, 0, 5, 1]] \<and>
   positives False (init (- 4) 3) [[3, 0, 5, 1], [5, 0, 7, 1], [1, 1, 2, 1], [9, 1, 9, 0], [2, 0, 2, 0]]
     = [[5, 0, 7, 1], [1, 1, 2, 1]] \<and>
   fit (init (- 4) 3) [[3, 0, 5, 1], [5, 0, 7, 1], [1, 1, 2, 1], [9, 1, 9, 0], [2, 0, 2, 0]]
     = Inl IndexError"
  by (simp add: positives_def init_def fit_def fit_diff_def bind_err_def getitem_def
      py_in_range_def py_norm_def np_mean_axis0_def slice_init_def np_broadcast2_def setitem_def)

text \<open>
  C5, amended. For a dataset with \<open>d\<close> columns and a sensitive index in range for its rows
  other than \<open>-d\<close>, \<open>fit\<close> raises an exception exactly when the positively-labelled
  examples of group A or those of group B are none; when both groups have one, \<open>fit\<close>
  returns with \<open>u\<close> bound to the difference of the group means, \<open>-1\<close> at the sensitive
  index.
\<close>

theorem fit_fails_iff_empty_group:
  assumes "is_matrix d dataset"
    and "py_in_range d (sensitive_feature self)"
    and "sensitive_feature self \<noteq> - int d"
  shows "(isl (fit self dataset) \<longleftrightarrow>
            positives True self dataset = [] \<or> positives False self dataset = []) \<and>
         (positives True self dataset \<noteq> [] \<and> positives False self dataset \<noteq> [] \<longrightarrow>
            fit self dataset =
              Inr (self\<lparr>u := Some
                ((map2 (-) (mean_vector (map butlast (positives True self dataset)))
                           (mean_vector (map butlast (positives False self dataset))))
                 [py_norm (d - 1) (sensitive_feature self) := - 1])\<rparr>))"
proof -
  have a: "fit self dataset = Inl IndexError"
    if "positives True self dataset = [] \<or> positives False self dataset = []"
    using fit_diff_empty[OF assms(1,2) that] by (simp add: fit_def bind_err_def)
  note b = fit_matrix[OF assms]
  show ?thesis using a b by (metis sum.disc(1,2))
qed

theorem fit_fails_iff_empty_group_witness:
  "is_matrix 4 [[3, 0, 5, 1], [5, 0, 7, 1], [1, 1, 2, 1], [9, 1, 9, 0], [2, 0, 2, 0::rat]] \<and>
   py_in_range 4 (sensitive_feature (init 1 0)) \<and>
   positives True (init 1 0) [[3, 0, 5, 1], [5, 0, 7, 1], [1, 1, 2, 1], [9, 1, 9, 0], [2, 0, 2, 0]] \<noteq> [] \<and>
   positives False (init 1 0) [[3, 0, 5, 1], [5, 0, 7, 1], [1, 1, 2, 1], [9, 1, 9, 0], [2, 0, 2, 0]] \<noteq> [] \<and>
   \<not> isl (fit (init 1 0) [[3, 0, 5, 1], [5, 0, 7, 1], [1, 1, 2, 1], [9, 1, 9, 0], [2, 0, 2, 0]]) \<and>
   fit (init 1 0) [[3, 0, 5, 1], [5, 0, 7, 1], [1, 1, 2, 1], [9, 1, 9, 0], [2, 0, 2, 0]]
     = Inr \<lparr>val0 = 0, sensitive_feature = 1, u = Some [3, - 1, 4]\<rparr> \<and>
   is_matrix 4 [[3, 0, 5, 1], [5, 0, 7, 1], [9, 1, 9, 0::rat]] \<and>
   positives False (init 1 0) [[3, 0, 5, 1], [5, 0, 7, 1], [9, 1, 9, 0]] = [] \<and>
   isl (fit (init 1 0) [[3, 0, 5, 1], [5, 0, 7, 1], [9, 1, 9, 0]])"
  using fit_fails_iff_empty_group [of 4 "[[3, 0, 5, 1], [5, 0, 7, 1], [1, 1, 2, 1], [9, 1, 9, 0], [2, 0, 2, 0]]" "init 1 0"]
    fit_fails_iff_empty_group [of 4 "[[3, 0, 5, 1], [5, 0, 7, 1], [9, 1, 9, 0]]" "init 1 0"]
  by (simp add: is_matrix_def positives_def init_def py_in_range_def py_norm_def mean_vector_def)

text \<open>
  C7. Whenever \<open>fit\<close> returns on a dataset with \<open>d\<close> columns, the mean of group A was
  taken over all \<open>d\<close> columns and the vector \<open>u\<close> has \<open>d - 1\<close> entries, one per feature.
\<close>

theorem fit_u_length:
  assumes m: "is_matrix d dataset" and f: "fit self dataset = Inr self'"
  shows "\<exists>tmpA mA v. fit_select True self dataset = Inr tmpA \<and> np_mean_axis0 tmpA = Some mA \<and>
           length mA = d \<and> u self' = Some v \<and> length v = d - 1"
proof -
  from f obtain dv v where dv: "fit_diff self dataset = Inr dv"
    and v: "setitem dv (sensitive_feature self) (- 1) = Inr v" and s: "self' = self\<lparr>u := Some v\<rparr>"
    by (auto simp: fit_def bind_err_def split: sum.splits)
  from dv obtain tmpA tmpB a b where A: "fit_select True self dataset = Inr tmpA"
    and B: "fit_select False self dataset = Inr tmpB"
    and a: "slice_init (np_mean_axis0 tmpA) = Inr a"
    and b: "slice_init (np_mean_axis0 tmpB) = Inr b"
    and d: "np_broadcast2 (-) a b = Inr dv"
    by (auto simp: fit_diff_def bind_err_def split: sum.splits)
  have mA: "is_matrix d tmpA" and mB: "is_matrix d tmpB"
    using fit_select_subset[OF A] fit_select_subset[OF B] m
    by (auto simp: is_matrix_def list_all_iff)
  have neA: "tmpA \<noteq> []" and neB: "tmpB \<noteq> []"
    using a b by (auto simp: slice_init_def np_mean_axis0_def)
  have a': "a = butlast (mean_vector tmpA)" and b': "b = butlast (mean_vector tmpB)"
    using a b by (simp_all add: np_mean_axis0_matrix[OF mA neA] np_mean_axis0_matrix[OF mB neB]
        slice_init_def)
  have la: "length a = d - 1" and lb: "length b = d - 1"
    by (simp_all add: a' b' length_mean_vector[OF mA neA] length_mean_vector[OF mB neB])
  have "length dv = d - 1" using d la lb by (auto simp: np_broadcast2_def)
  then have "length v = d - 1" using v by (auto simp: setitem_def split: if_splits)
  then show ?thesis
    using A s by (simp add: np_mean_axis0_matrix[OF mA neA] length_mean_vector[OF mA neA])
qed

theorem fit_u_length_witness:
  "is_matrix 4 [[3, 0, 5, 1], [5, 0, 7, 1], [1, 1, 2, 1], [9, 1, 9, 0], [2, 0, 2, 0::rat]] \<and>
   fit (init 1 0) [[3, 0, 5, 1], [5, 0, 7, 1], [1, 1, 2, 1], [9, 1, 9, 0], [2, 0, 2, 0]]
     = Inr \<lparr>val0 = 0, sensitive_feature = 1, u = Some [3, - 1, 4]\<rparr> \<and>
   (\<exists>tmpA mA v.
      fit_select True (init 1 0) [[3, 0, 5, 1], [5, 0, 7, 1], [1, 1, 2, 1], [9, 1, 9, 0], [2, 0, 2, 0]]
        = Inr tmpA \<and> np_mean_axis0 tmpA = Some mA \<and> length mA = 4 \<and>
      u \<lparr>val0 = 0, sensitive_feature = 1, u = Some [3, - 1, 4]\<rparr> = Some v \<and> length v = 4 - 1)"
proof -
  have m: "is_matrix 4 [[3, 0, 5, 1], [5, 0, 7, 1], [1, 1, 2, 1], [9, 1, 9, 0], [2, 0, 2, 0::rat]]"
    by (simp add: is_matrix_def)
  have f: "fit (init 1 0) [[3, 0, 5, 1], [5, 0, 7, 1], [1, 1, 2, 1], [9, 1, 9, 0], [2, 0, 2, 0]]
     = Inr \<lparr>val0 = 0, sensitive_feature = 1, u = Some [3, - 1, 4]\<rparr>"
    by (simp add: fit_def fit_diff_def init_def bind_err_def getitem_def py_in_range_def
        py_norm_def np_mean_axis0_def slice_init_def np_broadcast2_def setitem_def)
  from fit_u_length [OF m f] m f show ?thesis by blast
qed

text \<open>
  C8. With the sensitive index \<open>-2\<close> and the groups coded 0 and 1, the difference of
  means is \<open>-1\<close> at the sensitive column of the dataset, but the assignment writes at
  another entry of \<open>u\<close> and changes it. And with no positively-labelled example in group B
  the coding condition holds and \<open>fit\<close> raises.
\<close>

theorem fit_assignment_redundant_counterexample:
  "val0 (init (- 2) 0) = 0 \<and>
   positives True (init (- 2) 0) [[3, 5, 0, 1], [5, 7, 0, 1], [1, 2, 1, 1], [9, 9, 1, 0], [2, 2, 0, 0]]
     = [[3, 5, 0, 1], [5, 7, 0, 1]] \<and>
   positives False (init (- 2) 0) [[3, 5, 0, 1], [5, 7, 0, 1], [1, 2, 1, 1], [9, 9, 1, 0], [2, 2, 0, 0]]
     = [[1, 2, 1, 1]] \<and>
   fit_diff (init (- 2) 0) [[3, 5, 0, 1], [5, 7, 0, 1], [1, 2, 1, 1], [9, 9, 1, 0], [2, 2, 0, 0]]
     = Inr [3, 4, - 1] \<and>
   fit (init (- 2) 0) [[3, 5, 0, 1], [5, 7, 0, 1], [1, 2, 1, 1], [9, 9, 1, 0], [2, 2, 0, 0]]
     = Inr \<lparr>val0 = 0, sensitive_feature = - 2, u = Some [3, - 1, - 1]\<rparr> \<and>
   positives True (init 1 0) [[7, 0, 1]] = [[7, 0, 1]] \<and>
   positives False (init 1 0) [[7, 0, 1]] = [] \<and>
   fit (init 1 0) [[7, 0, 1]] = Inl IndexError"
  by (simp add: positives_def init_def fit_def fit_diff_def bind_err_def getitem_def
      py_in_range_def py_norm_def np_mean_axis0_def slice_init_def np_broadcast2_def setitem_def)

text \<open>
  C8, amended. For a sensitive index that is a column number counted from 0 and a dataset
  in which both groups have a positively-labelled example: when the group-A marker is 0
  and the sensitive value of every positively-labelled group-B example is 1, the
  difference of means computed by \<open>fit\<close> is already \<open>-1\<close> at the sensitive index, and the
  final assignment changes nothing: \<open>u\<close> is that difference.
\<close>

theorem fit_assignment_redundant:
  assumes m: "is_matrix d dataset"
    and sf: "0 \<le> sensitive_feature self" "sensitive_feature self < int d"
    and z: "val0 self = 0"
    and neA: "positives True self dataset \<noteq> []"
    and neB: "positives False self dataset \<noteq> []"
    and one: "\<forall>ex\<in>set (positives False self dataset). ex ! nat (sensitive_feature self) = 1"
  shows "\<exists>v. fit_diff self dataset = Inr v \<and> v ! nat (sensitive_feature self) = - 1 \<and>
             fit self dataset = Inr (self\<lparr>u := Some v\<rparr>)"
proof -
  let ?i = "nat (sensitive_feature self)"
  let ?A = "positives True self dataset" and ?B = "positives False self dataset"
  let ?v = "map2 (-) (mean_vector (map butlast ?A)) (mean_vector (map butlast ?B))"
  have rngd: "py_in_range d (sensitive_feature self)"
    using sf by (simp add: py_in_range_def)
  have nrmd: "\<And>n. py_norm n (sensitive_feature self) = ?i"
    using sf(1) by (simp add: py_norm_def)
  have i: "?i < d - 1"
    using feature_index[OF m rngd neA neB] by (simp add: nrmd)
  have mA: "is_matrix (d - 1) (map butlast ?A)" and mB: "is_matrix (d - 1) (map butlast ?B)"
    using m by (rule is_matrix_positives_butlast)+
  have neA': "map butlast ?A \<noteq> []" and neB': "map butlast ?B \<noteq> []" using neA neB by simp_all
  have lenA: "\<forall>x\<in>set ?A. length x = d" and lenB: "\<forall>x\<in>set ?B. length x = d"
    using is_matrix_positives[OF m] by (simp_all add: is_matrix_def list_all_iff)
  have zA: "\<forall>x\<in>set ?A. butlast x ! ?i = 0"
    using lenA i z by (auto simp: nth_butlast positives_def nrmd)
  have oB: "\<forall>x\<in>set ?B. butlast x ! ?i = 1"
    using lenB i one by (auto simp: nth_butlast)
  have sA: "mean_vector (map butlast ?A) ! ?i = 0"
    using sum_col_const[OF zA] by (simp add: mean_vector_nth[OF mA neA' i] comp_def)
  have sB: "mean_vector (map butlast ?B) ! ?i = 1"
    using sum_col_const[OF oB] neB by (simp add: mean_vector_nth[OF mB neB' i] comp_def)
  have lv: "?i < length ?v"
    using i by (simp add: length_mean_vector[OF mA neA'] length_mean_vector[OF mB neB'])
  have vi: "?v ! ?i = - 1"
    using lv by (simp add: sA sB)
  have d: "fit_diff self dataset = Inr ?v"
    by (rule fit_diff_matrix[OF m rngd neA neB])
  have rng: "py_in_range (length ?v) (sensitive_feature self)"
    using lv sf(1) unfolding py_in_range_def by linarith
  have "?v[?i := - 1] = ?v" using vi list_update_id[of ?v ?i] by simp
  then have "fit self dataset = Inr (self\<lparr>u := Some ?v\<rparr>)"
    using rng by (simp add: fit_def d bind_err_def setitem_def nrmd)
  with d vi show ?thesis by blast
qed

theorem fit_assignment_redundant_witness:
  "is_matrix 4 [[3, 0, 5, 1], [5, 0, 7, 1], [1, 1, 2, 1], [9, 1, 9, 0], [2, 0, 2, 0::rat]] \<and>
   positives True (init 1 0) [[3, 0, 5, 1], [5, 0, 7, 1], [1, 1, 2, 1], [9, 1, 9, 0], [2, 0, 2, 0]]
     = [[3, 0, 5, 1], [5, 0, 7, 1]] \<and>
   positives False (init 1 0) [[3, 0, 5, 1], [5, 0, 7, 1], [1, 1, 2, 1], [9, 1, 9, 0], [2, 0, 2, 0]]
     = [[1, 1, 2, 1]] \<and>
   (\<exists>v. fit_diff (init 1 0) [[3, 0, 5, 1], [5, 0, 7, 1], [1, 1, 2, 1], [9, 1, 9, 0], [2, 0, 2, 0]] = Inr v \<and>
        v ! 1 = - 1 \<and>
        fit (init 1 0) [[3, 0, 5, 1], [5, 0, 7, 1], [1, 1, 2, 1], [9, 1, 9, 0], [2, 0, 2, 0]]
          = Inr \<lparr>val0 = 0, sensitive_feature = 1, u = Some v\<rparr>)"
  using fit_assignment_redundant [of 4 "[[3, 0, 5, 1], [5, 0, 7, 1], [1, 1, 2, 1], [9, 1, 9, 0], [2, 0, 2, 0]]" "init 1 0"]
  by (simp add: is_matrix_def positives_def init_def py_norm_def)

section \<open>Properties of deo_from_list\<close>

text \<open>
  C6. Let every index select a row of the dataset, the predictions (one per row) be 0 or 1
  at the selected rows, and the rows selected for each group realise all four cells of
  the confusion matrix (so each group has an actual positive). Then \<open>deo_from_list\<close>
  returns the absolute difference of the true-positive rates \<open>tp / (tp + fn)\<close> of the
  two groups.
\<close>

theorem deo_from_list_tpr_difference:
  assumes "list_all (py_in_range (length dataset)) groupA_idxs"
    and "list_all (py_in_range (length dataset)) groupB_idxs"
    and "length predictions = length dataset"
    and "\<forall>r\<in>set dataset. r \<noteq> []"
    and "\<forall>i\<in>set (groupA_idxs @ groupB_idxs). predictions ! py_norm (length predictions) i \<in> {0, 1}"
    and "all_cells_realised dataset predictions groupA_idxs"
    and "all_cells_realised dataset predictions groupB_idxs"
  shows "deo_from_list dataset predictions groupA_idxs groupB_idxs =
     Inr (Some \<bar>of_nat (cell dataset predictions groupA_idxs True 1) /
                  of_nat (cell dataset predictions groupA_idxs True 1 +
                          cell dataset predictions groupA_idxs True 0) -
                of_nat (cell dataset predictions groupB_idxs True 1) /
                  of_nat (cell dataset predictions groupB_idxs True 1 +
                          cell dataset predictions groupB_idxs True 0)\<bar>)"
proof -
  have binA: "\<forall>i\<in>set groupA_idxs. predictions ! py_norm (length predictions) i \<in> {0, 1}"
    and binB: "\<forall>i\<in>set groupB_idxs. predictions ! py_norm (length predictions) i \<in> {0, 1}"
    using assms(5) by auto
  have cA: "0 < cell dataset predictions groupA_idxs False 0"
      "0 < cell dataset predictions groupA_idxs True 1"
    and cB: "0 < cell dataset predictions groupB_idxs False 0"
      "0 < cell dataset predictions groupB_idxs True 1"
    using assms(6,7) by (simp_all add: all_cells_realised_def)
  note gA = group_cells_binary[OF assms(1,3,4) binA cA]
  note gB = group_cells_binary[OF assms(2,3,4) binB cB]
  show ?thesis
    using cA(2) cB(2) by (simp add: deo_from_list_def gA gB bind_err_def np_divide_def)
qed

theorem deo_from_list_tpr_difference_witness:
  "list_all (py_in_range (length [[7, 0], [8, 0], [7, 1], [9, 1], [2, 0], [3, 0], [2, 1], [4, 1], [5, 1::rat]]))
     [0, 1, 2, 3] \<and>
   list_all (py_in_range (length [[7, 0], [8, 0], [7, 1], [9, 1], [2, 0], [3, 0], [2, 1], [4, 1], [5, 1::rat]]))
     [4, 5, 6, 7, - 1] \<and>
   all_cells_realised [[7, 0], [8, 0], [7, 1], [9, 1], [2, 0], [3, 0], [2, 1], [4, 1], [5, 1]]
     [0, 1, 0, 1, 0, 1, 0, 1, 1] [0, 1, 2, 3] \<and>
   all_cells_realised [[7, 0], [8, 0], [7, 1], [9, 1], [2, 0], [3, 0], [2, 1], [4, 1], [5, 1]]
     [0, 1, 0, 1, 0, 1, 0, 1, 1] [4, 5, 6, 7, - 1] \<and>
   deo_from_list [[7, 0], [8, 0], [7, 1], [9, 1], [2, 0], [3, 0], [2, 1], [4, 1], [5, 1]]
     [0, 1, 0, 1, 0, 1, 0, 1, 1] [0, 1, 2, 3] [4, 5, 6, 7, - 1] = Inr (Some (1 / 6))"
proof -
  let ?ds = "[[7, 0], [8, 0], [7, 1], [9, 1], [2, 0], [3, 0], [2, 1], [4, 1], [5, 1::rat]]"
  let ?p = "[0, 1, 0, 1, 0, 1, 0, 1, 1::rat]"
  have a: "list_all (py_in_range (length ?ds)) [0, 1, 2, 3]"
    and b: "list_all (py_in_range (length ?ds)) [4, 5, 6, 7, - 1]"
    by (simp_all add: py_in_range_def)
  have l: "length ?p = length ?ds" by simp
  have r: "\<forall>r\<in>set ?ds. r \<noteq> []" by simp
  have bin: "\<forall>i\<in>set ([0, 1, 2, 3] @ [4, 5, 6, 7, - 1]). ?p ! py_norm (length ?p) i \<in> {0, 1}"
    by (simp add: py_norm_def)
  have cA: "all_cells_realised ?ds ?p [0, 1, 2, 3]"
    by (simp add: all_cells_realised_def cell_def py_norm_def)
  have cB: "all_cells_realised ?ds ?p [4, 5, 6, 7, - 1]"
    by (simp add: all_cells_realised_def cell_def py_norm_def)
  have v: "\<bar>of_nat (cell ?ds ?p [0, 1, 2, 3] True 1) /
                  of_nat (cell ?ds ?p [0, 1, 2, 3] True 1 + cell ?ds ?p [0, 1, 2, 3] True 0) -
                of_nat (cell ?ds ?p [4, 5, 6, 7, - 1] True 1) /
                  of_nat (cell ?ds ?p [4, 5, 6, 7, - 1] True 1 +
                          cell ?ds ?p [4, 5, 6, 7, - 1] True 0)\<bar> = (1 / 6 :: rat)"
    by (simp add: cell_def py_norm_def)
  from deo_from_list_tpr_difference [OF a b l r bin cA cB] a b cA cB show ?thesis
    unfolding v by simp
qed

section \<open>Properties of the random split\<close>

text \<open>
  C9. For one random number per row, and a frame that has the columns \<open>id\<close> and
  \<open>diagnosis\<close>, the split returns; at every position exactly one of the three masks
  holds; and the row labels of \<open>data_train\<close>, \<open>data_val\<close> and \<open>data_batch\<close> together are
  the row labels of the data, each as often as it occurs there.
\<close>

theorem split_partitions_rows:
  assumes len: "length rand_split = length (df_index data)"
    and id: "''id'' \<in> set (df_columns data)"
    and diag: "''diagnosis'' \<in> set (df_columns data)"
  shows "\<exists>data_train data_val data_batch data_batch_noID.
           split_data data rand_split = Inr (data_train, data_val, data_batch, data_batch_noID) \<and>
           mset (df_index data_train) + mset (df_index data_val) + mset (df_index data_batch)
             = mset (df_index data) \<and>
           (\<forall>i<length rand_split.
              (train_list rand_split ! i \<and> \<not> val_list rand_split ! i \<and> \<not> batch_list rand_split ! i) \<or>
              (\<not> train_list rand_split ! i \<and> val_list rand_split ! i \<and> \<not> batch_list rand_split ! i) \<or>
              (\<not> train_list rand_split ! i \<and> \<not> val_list rand_split ! i \<and> batch_list rand_split ! i))"
proof -
  have lt: "length (train_list rand_split) = length (df_index data)"
    and lv: "length (val_list rand_split) = length (df_index data)"
    and lb: "length (batch_list rand_split) = length (df_index data)"
    using len by (simp_all add: train_list_def val_list_def batch_list_def)
  have "\<exists>tr va ba bn. split_data data rand_split = Inr (tr, va, ba, bn) \<and>
          df_index tr = select_mask (train_list rand_split) (df_index data) \<and>
          df_index va = select_mask (val_list rand_split) (df_index data) \<and>
          df_index ba = select_mask (batch_list rand_split) (df_index data)"
    using id diag
    by (simp add: split_data_def df_getitem_mask_def df_drop_def bind_err_def lt lv lb)
  then obtain tr va ba bn where s: "split_data data rand_split = Inr (tr, va, ba, bn)"
    and i: "df_index tr = select_mask (train_list rand_split) (df_index data)"
      "df_index va = select_mask (val_list rand_split) (df_index data)"
      "df_index ba = select_mask (batch_list rand_split) (df_index data)"
    by blast
  have "mset (df_index tr) + mset (df_index va) + mset (df_index ba) = mset (df_index data)"
    unfolding i by (rule split_masks_partition[OF len])
  with s split_masks_exactly_one show ?thesis by blast
qed

theorem split_partitions_rows_witness:
  "split_data \<lparr>df_columns = [''id'', ''diagnosis'', ''radius_mean''], df_index = [0, 1, 2, 3],
               df_rows = [[101, 1, 17], [102, 0, 12], [103, 0, 11], [104, 1, 20::rat]]\<rparr>
      [1 / 2, 17 / 20, 19 / 20, 4 / 5] =
    Inr (\<lparr>df_columns = [''diagnosis'', ''radius_mean''], df_index = [0], df_rows = [[1, 17]]\<rparr>,
         \<lparr>df_columns = [''diagnosis'', ''radius_mean''], df_index = [1, 3],
           df_rows = [[0, 12], [1, 20]]\<rparr>,
         \<lparr>df_columns = [''id'', ''radius_mean''], df_index = [2], df_rows = [[103, 11]]\<rparr>,
         \<lparr>df_columns = [''radius_mean''], df_index = [2], df_rows = [[11]]\<rparr>) \<and>
   (\<exists>data_train data_val data_batch data_batch_noID.
      split_data \<lparr>df_columns = [''id'', ''diagnosis'', ''radius_mean''], df_index = [0, 1, 2, 3],
               df_rows = [[101, 1, 17], [102, 0, 12], [103, 0, 11], [104, 1, 20::rat]]\<rparr>
        [1 / 2, 17 / 20, 19 / 20, 4 / 5] = Inr (data_train, data_val, data_batch, data_batch_noID) \<and>
      mset (df_index data_train) + mset (df_index data_val) + mset (df_index data_batch)
        = mset [0, 1, 2, 3])"
proof -
  let ?d = "\<lparr>df_columns = [''id'', ''diagnosis'', ''radius_mean''], df_index = [0, 1, 2, 3],
               df_rows = [[101, 1, 17], [102, 0, 12], [103, 0, 11], [104, 1, 20::rat]]\<rparr>"
  have len: "length [1 / 2, 17 / 20, 19 / 20, 4 / 5 :: rat] = length (df_index ?d)" by simp
  have id: "''id'' \<in> set (df_columns ?d)" and dg: "''diagnosis'' \<in> set (df_columns ?d)"
    by simp_all
  have run: "split_data ?d [1 / 2, 17 / 20, 19 / 20, 4 / 5] =
    Inr (\<lparr>df_columns = [''diagnosis'', ''radius_mean''], df_index = [0], df_rows = [[1, 17]]\<rparr>,
         \<lparr>df_columns = [''diagnosis'', ''radius_mean''], df_index = [1, 3],
           df_rows = [[0, 12], [1, 20]]\<rparr>,
         \<lparr>df_columns = [''id'', ''radius_mean''], df_index = [2], df_rows = [[103, 11]]\<rparr>,
         \<lparr>df_columns = [''radius_mean''], df_index = [2], df_rows = [[11]]\<rparr>)"
    by (simp add: split_data_def df_getitem_mask_def df_drop_def bind_err_def train_list_def
        val_list_def batch_list_def select_mask_def)
  from split_partitions_rows [OF len id dg] run show ?thesis by simp
qed

section \<open>What new_representation leaves unchanged\<close>

text \<open>
  C10. Whatever \<open>new_representation\<close> returns or raises, the fields of the instance
  (\<open>val0\<close>, \<open>sensitive_feature\<close> and the reference \<open>u\<close>) are the same after the call, and
  every array that existed before the call, the argument and the array \<open>u\<close> refers to
  among them, has the content it had: the method only allocates.
\<close>

theorem new_representation_frame:
  assumes "new_representation_st s examples = (r, s')"
  shows "this s' = this s \<and> length (heap s) \<le> length (heap s') \<and>
         (\<forall>a<length (heap s). heap s' ! a = heap s ! a)"
  using assms
  by (auto simp: new_representation_st_def alloc_def nth_append
      split: option.splits ndarray.splits sum.splits prod.splits)

theorem new_representation_frame_witness:
  "new_representation_st
      \<lparr>this = \<lparr>o_val0 = 0, o_sensitive_feature = 1, o_u = Some 0\<rparr>,
       heap = [Arr1 [3, - 1, 4], Arr2 [[3, 0, 5], [1, 1, 2]]], stdout = []\<rparr> 1 =
     (Inr 2, \<lparr>this = \<lparr>o_val0 = 0, o_sensitive_feature = 1, o_u = Some 0\<rparr>,
              heap = [Arr1 [3, - 1, 4], Arr2 [[3, 0, 5], [1, 1, 2]], Arr2 [[3, 5], [4, 6]]],
              stdout = []\<rparr>) \<and>
   this \<lparr>this = \<lparr>o_val0 = 0, o_sensitive_feature = 1, o_u = Some 0\<rparr>,
              heap = [Arr1 [3, - 1, 4], Arr2 [[3, 0, 5], [1, 1, 2]], Arr2 [[3, 5], [4, 6]]],
              stdout = []\<rparr> = \<lparr>o_val0 = 0, o_sensitive_feature = 1, o_u = Some 0\<rparr> \<and>
   [Arr1 [3, - 1, 4], Arr2 [[3, 0, 5], [1, 1, 2]], Arr2 [[3, 5], [4, 6]]] ! 0 = Arr1 [3, - 1, 4] \<and>
   [Arr1 [3, - 1, 4], Arr2 [[3, 0, 5], [1, 1, 2]], Arr2 [[3, 5], [4, 6]]] ! 1
      = Arr2 [[3, 0, 5], [1, 1, 2]]"
proof -
  let ?s = "\<lparr>this = \<lparr>o_val0 = 0, o_sensitive_feature = 1, o_u = Some 0\<rparr>,
       heap = [Arr1 [3, - 1, 4], Arr2 [[3, 0, 5], [1, 1, 2]]], stdout = []\<rparr>"
  let ?s' = "\<lparr>this = \<lparr>o_val0 = 0, o_sensitive_feature = 1, o_u = Some 0\<rparr>,
              heap = [Arr1 [3, - 1, 4], Arr2 [[3, 0, 5], [1, 1, 2]], Arr2 [[3, 5], [4, 6]]],
              stdout = []\<rparr>"
  have run: "new_representation_st ?s 1 = (Inr 2, ?s')"
    by (simp add: new_representation_st_def deref_def new_representation_def bind_err_def
        getitem_def py_in_range_def py_norm_def np_broadcast2_def np_delete_axis1_def
        delete_at_def alloc_def)
  from new_representation_frame [OF run] run show ?thesis by simp
qed

end
